theory Spec2Isabelle
  imports Complex_Main "HOL-Library.Word"
begin

unbundle bit_operations_syntax

section \<open>The VAAPI ProcAmp filter (libavfilter/vf_procamp_vaapi.c)\<close>

text \<open>
  A shallow embedding of the filter's functions \<open>procamp_vaapi_init\<close>,
  \<open>procamp_vaapi_pipeline_uninit\<close>, \<open>procamp_vaapi_config_input\<close>,
  \<open>procamp_vaapi_config_output\<close> (with \<open>procamp_vaapi_build_filter_params\<close>),
  \<open>vaapi_proc_colour_standard\<close> and \<open>procamp_vaapi_filter_frame\<close>.

  The filter mutates its private context and talks to three collaborators: the libva
  driver, the libavutil allocators and the downstream link. The private context is a
  record; the collaborators' observable state (the calls the driver received, the
  objects that are still allocated, the frames handed downstream) is carried in the same
  record, so that every function takes the state and returns the new one together with
  the C return value. What a collaborator answers is not decided by this file: it is
  an input, given per call in an environment record.

  C \<open>float\<close> values are idealised as \<open>real\<close>: the filter only compares and selects
  them. The \<open>display\<close> argument of the libva calls (\<open>ctx->hwctx->display\<close>) is constant
  per device and is left out of the recorded calls.
\<close>

subsection \<open>Constants of the headers\<close>

type_synonym VAGenericID = "32 word"
type_synonym VAStatus = int

definition VA_INVALID_ID :: VAGenericID where
  "VA_INVALID_ID = 0xffffffff"

definition VA_STATUS_SUCCESS :: VAStatus where
  "VA_STATUS_SUCCESS = 0"

definition VA_FRAME_PICTURE :: "32 word" where
  "VA_FRAME_PICTURE = 0"

definition AV_VAAPI_DRIVER_QUIRK_RENDER_PARAM_BUFFERS :: "32 word" where
  "AV_VAAPI_DRIVER_QUIRK_RENDER_PARAM_BUFFERS = 2"

text \<open>\<open>AVERROR(e)\<close> negates a POSIX error number; the numbers are those of Linux.\<close>

definition EIO :: int where "EIO = 5"
definition ENOMEM :: int where "ENOMEM = 12"
definition EINVAL :: int where "EINVAL = 22"

definition AVERROR :: "int \<Rightarrow> int" where
  "AVERROR e = - e"

datatype AVPixelFormat =
    AV_PIX_FMT_NONE
  | AV_PIX_FMT_VAAPI
  | AV_PIX_FMT_YUV420P
  | AV_PIX_FMT_NV12
  | AV_PIX_FMT_P010
  | AV_PIX_FMT_OTHER nat

datatype AVColorSpace =
    AVCOL_SPC_BT709
  | AVCOL_SPC_BT470BG
  | AVCOL_SPC_SMPTE170M
  | AVCOL_SPC_SMPTE240M
  | AVCOL_SPC_OTHER nat

datatype VAProcColorStandardType =
    VAProcColorStandardNone
  | VAProcColorStandardBT601
  | VAProcColorStandardBT709
  | VAProcColorStandardSMPTE170M
  | VAProcColorStandardSMPTE240M

datatype VAProcFilterType = VAProcFilterColorBalance

datatype VAProcColorBalanceType =
    VAProcColorBalanceNone
  | VAProcColorBalanceHue
  | VAProcColorBalanceSaturation
  | VAProcColorBalanceBrightness
  | VAProcColorBalanceContrast
  | VAProcColorBalanceAutoSaturation
  | VAProcColorBalanceAutoBrightness
  | VAProcColorBalanceAutoContrast

text \<open>The enumerators' values in \<open>va_vpp.h\<close>; \<open>VAProcColorBalanceCount\<close> closes the enum.\<close>

fun balance_index :: "VAProcColorBalanceType \<Rightarrow> nat" where
  "balance_index VAProcColorBalanceNone = 0"
| "balance_index VAProcColorBalanceHue = 1"
| "balance_index VAProcColorBalanceSaturation = 2"
| "balance_index VAProcColorBalanceBrightness = 3"
| "balance_index VAProcColorBalanceContrast = 4"
| "balance_index VAProcColorBalanceAutoSaturation = 5"
| "balance_index VAProcColorBalanceAutoBrightness = 6"
| "balance_index VAProcColorBalanceAutoContrast = 7"

definition VAProcColorBalanceCount :: nat where
  "VAProcColorBalanceCount = 8"

subsection \<open>Data\<close>

record VAProcFilterValueRange =
  min_value :: real
  max_value :: real
  default_value :: real
  step :: real

record VAProcFilterCapColorBalance =
  cap_type :: VAProcColorBalanceType
  range :: VAProcFilterValueRange

record VAProcFilterParameterBufferColorBalance =
  param_type :: VAProcFilterType
  attrib :: VAProcColorBalanceType
  param_value :: real

record VARectangle =
  rect_x :: int
  rect_y :: int
  rect_width :: int
  rect_height :: int

record VAProcPipelineParameterBuffer =
  surface :: VAGenericID
  surface_region :: "VARectangle option"
  surface_color_standard :: VAProcColorStandardType
  output_region :: "VARectangle option"
  output_background_color :: "32 word"
  output_color_standard :: VAProcColorStandardType
  pipeline_flags :: "32 word"
  filter_flags :: "32 word"
  filters :: "VAGenericID list"
  num_filters :: nat

record AVVAAPIDeviceContext =
  driver_quirks :: "32 word"

record AVHWDeviceContext =
  dev_hwctx :: AVVAAPIDeviceContext

record AVVAAPIFramesContext =
  surface_ids :: "VAGenericID list"
  nb_surfaces :: nat

record AVHWFramesContext =
  hwfc_device_ref :: AVHWDeviceContext
  hwfc_format :: AVPixelFormat
  hwfc_sw_format :: AVPixelFormat
  hwfc_width :: int
  hwfc_height :: int
  hwfc_initial_pool_size :: int
  hwfc_hwctx :: AVVAAPIFramesContext

text \<open>
  \<open>valid_sw_formats\<close> is a C array closed by \<open>AV_PIX_FMT_NONE\<close>, or \<open>NULL\<close>
  (\<open>None\<close>). The list holds the array as it lies in memory, terminator included.
\<close>

record AVHWFramesConstraints =
  valid_sw_formats :: "AVPixelFormat list option"

text \<open>
  Of a frame, the fields this file reads or that \<open>av_frame_copy_props\<close> carries over:
  \<open>frame_data3\<close> is \<open>data[3]\<close>, the surface id of a VAAPI frame.
\<close>

record AVFrame =
  frame_format :: AVPixelFormat
  frame_width :: int
  frame_height :: int
  frame_colorspace :: AVColorSpace
  frame_pts :: int
  frame_side_data :: "nat list"
  frame_data3 :: VAGenericID

text \<open>The calls the driver receives, in the order it receives them.\<close>

datatype va_payload =
    FilterParameters "VAProcFilterParameterBufferColorBalance list"
  | PipelineParameters VAProcPipelineParameterBuffer

datatype va_call =
    VaCreateConfig
  | VaDestroyConfig VAGenericID
  | VaCreateContext VAGenericID int int "VAGenericID list" nat
  | VaDestroyContext VAGenericID
  | VaQueryVideoProcFilterCaps VAGenericID
  | VaCreateBuffer VAGenericID va_payload
  | VaDestroyBuffer VAGenericID
  | VaBeginPicture VAGenericID VAGenericID
  | VaRenderPicture VAGenericID "VAGenericID list"
  | VaEndPicture VAGenericID

text \<open>
  \<open>ProcampVAAPIContext\<close>. \<open>input_frames\<close> and \<open>output_frames\<close> are the \<open>data\<close>
  pointers of \<open>input_frames_ref\<close> and \<open>output_frames_ref\<close>: each pair is one field here,
  and a write through \<open>ctx->output_frames\<close> is a write to \<open>output_frames_ref\<close>.
\<close>

record ProcampVAAPIContext =
  hwctx :: "AVVAAPIDeviceContext option"
  device_ref :: "AVHWDeviceContext option"
  valid_ids :: int
  va_config :: VAGenericID
  va_context :: VAGenericID
  input_frames_ref :: "AVHWFramesContext option"
  output_frames_ref :: "AVHWFramesContext option"
  output_format :: AVPixelFormat
  output_width :: int
  output_height :: int
  bright :: real
  hue :: real
  saturation :: real
  contrast :: real
  filter_buffer :: VAGenericID

text \<open>
  The filter's context together with what its collaborators hold:
  \<^item> \<open>va_calls\<close>: the libva calls made so far;
  \<^item> \<open>live_configs\<close>, \<open>live_contexts\<close>, \<open>live_buffers\<close>: the driver objects created
    and not yet passed to their destroy call;
  \<^item> \<open>live_hwconfigs\<close>, \<open>live_constraints\<close>: the \<open>AVVAAPIHWConfig\<close> and
    \<open>AVHWFramesConstraints\<close> objects allocated and not yet freed;
  \<^item> \<open>live_frames\<close>: the frames from \<open>av_frame_alloc\<close> that this filter still owns;
  \<^item> \<open>released_inputs\<close>: the input frames freed by the filter;
  \<^item> \<open>downstream\<close>: the frames passed to \<open>ff_filter_frame\<close>;
  \<^item> \<open>outlink_w\<close>, \<open>outlink_h\<close>, \<open>outlink_hw_frames_ctx\<close>: the output link.
\<close>

record system = ProcampVAAPIContext +
  va_calls :: "va_call list"
  live_configs :: "VAGenericID list"
  live_contexts :: "VAGenericID list"
  live_buffers :: "VAGenericID list"
  live_hwconfigs :: nat
  live_constraints :: nat
  live_frames :: nat
  released_inputs :: "AVFrame list"
  downstream :: "AVFrame list"
  outlink_w :: int
  outlink_h :: int
  outlink_hw_frames_ctx :: "AVHWFramesContext option"

subsection \<open>The driver\<close>

text \<open>
  Each call is recorded. A create call takes the driver's answer \<open>(vas, id)\<close>: on
  success the id is live and is returned for the caller's out-parameter; on failure
  the out-parameter keeps the value \<open>old\<close> it had. A destroy call ends the object's life
  whatever status the driver reports (the filter acts on none of them).
\<close>

definition vaCreateConfig :: "VAStatus \<times> VAGenericID \<Rightarrow> VAGenericID \<Rightarrow> system \<Rightarrow> VAStatus \<times> VAGenericID \<times> system" where
  "vaCreateConfig answer old s =
     (fst answer,
      (if fst answer = VA_STATUS_SUCCESS then snd answer else old),
      s\<lparr>va_calls := va_calls s @ [VaCreateConfig],
        live_configs := (if fst answer = VA_STATUS_SUCCESS then live_configs s @ [snd answer]
                         else live_configs s)\<rparr>)"

definition vaDestroyConfig :: "VAGenericID \<Rightarrow> system \<Rightarrow> system" where
  "vaDestroyConfig i s =
     s\<lparr>va_calls := va_calls s @ [VaDestroyConfig i],
       live_configs := remove1 i (live_configs s)\<rparr>"

definition vaCreateContext ::
  "VAStatus \<times> VAGenericID \<Rightarrow> VAGenericID \<Rightarrow> int \<Rightarrow> int \<Rightarrow> VAGenericID list \<Rightarrow> nat \<Rightarrow> VAGenericID \<Rightarrow> system
     \<Rightarrow> VAStatus \<times> VAGenericID \<times> system" where
  "vaCreateContext answer config w h surfaces n old s =
     (fst answer,
      (if fst answer = VA_STATUS_SUCCESS then snd answer else old),
      s\<lparr>va_calls := va_calls s @ [VaCreateContext config w h surfaces n],
        live_contexts := (if fst answer = VA_STATUS_SUCCESS then live_contexts s @ [snd answer]
                         else live_contexts s)\<rparr>)"

definition vaDestroyContext :: "VAGenericID \<Rightarrow> system \<Rightarrow> system" where
  "vaDestroyContext i s =
     s\<lparr>va_calls := va_calls s @ [VaDestroyContext i],
       live_contexts := remove1 i (live_contexts s)\<rparr>"

definition vaCreateBuffer ::
  "VAStatus \<times> VAGenericID \<Rightarrow> VAGenericID \<Rightarrow> va_payload \<Rightarrow> VAGenericID \<Rightarrow> system
     \<Rightarrow> VAStatus \<times> VAGenericID \<times> system" where
  "vaCreateBuffer answer context payload old s =
     (fst answer,
      (if fst answer = VA_STATUS_SUCCESS then snd answer else old),
      s\<lparr>va_calls := va_calls s @ [VaCreateBuffer context payload],
        live_buffers := (if fst answer = VA_STATUS_SUCCESS then live_buffers s @ [snd answer]
                         else live_buffers s)\<rparr>)"

definition vaDestroyBuffer :: "VAGenericID \<Rightarrow> system \<Rightarrow> system" where
  "vaDestroyBuffer i s =
     s\<lparr>va_calls := va_calls s @ [VaDestroyBuffer i],
       live_buffers := remove1 i (live_buffers s)\<rparr>"

text \<open>
  The caller's array has \<open>VAProcColorBalanceCount\<close> zeroed entries; the driver writes
  its capabilities from the front.
\<close>

definition zero_cap :: VAProcFilterCapColorBalance where
  "zero_cap = \<lparr>cap_type = VAProcColorBalanceNone,
               range = \<lparr>min_value = 0, max_value = 0, default_value = 0, step = 0\<rparr>\<rparr>"

definition vaQueryVideoProcFilterCaps ::
  "VAStatus \<times> VAProcFilterCapColorBalance list \<Rightarrow> VAGenericID \<Rightarrow> system
     \<Rightarrow> VAStatus \<times> VAProcFilterCapColorBalance list \<times> system" where
  "vaQueryVideoProcFilterCaps answer context s =
     (fst answer,
      take VAProcColorBalanceCount (snd answer @ replicate VAProcColorBalanceCount zero_cap),
      s\<lparr>va_calls := va_calls s @ [VaQueryVideoProcFilterCaps context]\<rparr>)"

definition vaBeginPicture :: "VAStatus \<Rightarrow> VAGenericID \<Rightarrow> VAGenericID \<Rightarrow> system \<Rightarrow> VAStatus \<times> system" where
  "vaBeginPicture answer context target s =
     (answer, s\<lparr>va_calls := va_calls s @ [VaBeginPicture context target]\<rparr>)"

definition vaRenderPicture :: "VAStatus \<Rightarrow> VAGenericID \<Rightarrow> VAGenericID list \<Rightarrow> system \<Rightarrow> VAStatus \<times> system" where
  "vaRenderPicture answer context buffers s =
     (answer, s\<lparr>va_calls := va_calls s @ [VaRenderPicture context buffers]\<rparr>)"

definition vaEndPicture :: "VAStatus \<Rightarrow> VAGenericID \<Rightarrow> system \<Rightarrow> VAStatus \<times> system" where
  "vaEndPicture answer context s =
     (answer, s\<lparr>va_calls := va_calls s @ [VaEndPicture context]\<rparr>)"

subsection \<open>Initialisation and teardown\<close>

definition procamp_vaapi_init :: "system \<Rightarrow> int \<times> system" where
  "procamp_vaapi_init s =
     (0, s\<lparr>va_config := VA_INVALID_ID,
           va_context := VA_INVALID_ID,
           filter_buffer := VA_INVALID_ID,
           valid_ids := 1,
           output_format := AV_PIX_FMT_NONE\<rparr>)"

definition procamp_vaapi_pipeline_uninit :: "system \<Rightarrow> int \<times> system" where
  "procamp_vaapi_pipeline_uninit s =
     (let s1 = (if filter_buffer s \<noteq> VA_INVALID_ID
                then (vaDestroyBuffer (filter_buffer s) s)\<lparr>filter_buffer := VA_INVALID_ID\<rparr>
                else s);
          s2 = (if va_context s1 \<noteq> VA_INVALID_ID
                then (vaDestroyContext (va_context s1) s1)\<lparr>va_context := VA_INVALID_ID\<rparr>
                else s1);
          s3 = (if va_config s2 \<noteq> VA_INVALID_ID
                then (vaDestroyConfig (va_config s2) s2)\<lparr>va_config := VA_INVALID_ID\<rparr>
                else s2)
      in (0, s3\<lparr>output_frames_ref := None, device_ref := None, hwctx := None\<rparr>))"

text \<open>
  \<open>ref_ok\<close>: whether \<open>av_buffer_ref\<close> returns a reference. The source does not test it
  and reads \<open>input_frames_ref->data\<close>: a null reference ends the program (\<open>None\<close>).
\<close>

definition procamp_vaapi_config_input ::
  "bool \<Rightarrow> AVHWFramesContext option \<Rightarrow> system \<Rightarrow> (int \<times> system) option" where
  "procamp_vaapi_config_input ref_ok inlink_hw_frames_ctx s =
     (let s1 = snd (procamp_vaapi_pipeline_uninit s) in
      case inlink_hw_frames_ctx of
        None \<Rightarrow> Some (AVERROR EINVAL, s1)
      | Some frames \<Rightarrow>
          if \<not> ref_ok then None
          else Some (0, s1\<lparr>input_frames_ref := Some frames\<rparr>))"

subsection \<open>Building the parameter buffer\<close>

text \<open>
  Modelled from the spec: \<open>av_clip\<close> is a macro of \<open>libavutil/common.h\<close>, which is
  not among the sources. The spec has the builder "clamp it to the queried device
  range", and the value encoded "equals max(min, min(v, max))".
\<close>

definition av_clip :: "real \<Rightarrow> real \<Rightarrow> real \<Rightarrow> real" where
  "av_clip a amin amax = max amin (min a amax)"

text \<open>
  What the collaborators answer during one \<open>procamp_vaapi_config_output\<close>:
  \<^item> \<open>ce_device_ref\<close>, \<open>ce_outlink_ref\<close>: whether \<open>av_buffer_ref\<close> returns a reference;
  \<^item> \<open>ce_vaCreateConfig\<close>, \<open>ce_vaCreateContext\<close>, \<open>ce_vaCreateBuffer\<close>: status and new id;
  \<^item> \<open>ce_hwconfig_alloc\<close>: whether \<open>av_hwdevice_hwconfig_alloc\<close> returns an object;
  \<^item> \<open>ce_constraints\<close>: what \<open>av_hwdevice_get_hwframe_constraints\<close> returns;
  \<^item> \<open>ce_hwframe_ctx_alloc\<close>: the fresh frames context of \<open>av_hwframe_ctx_alloc\<close>;
  \<^item> \<open>ce_hwframe_ctx_init\<close>: the return value of \<open>av_hwframe_ctx_init\<close> and the
    surfaces of the pool it sets up;
  \<^item> \<open>ce_vaQueryVideoProcFilterCaps\<close>: status and the capabilities written.
\<close>

record config_env =
  ce_device_ref :: bool
  ce_vaCreateConfig :: "VAStatus \<times> VAGenericID"
  ce_hwconfig_alloc :: bool
  ce_constraints :: "AVHWFramesConstraints option"
  ce_hwframe_ctx_alloc :: "AVHWFramesContext option"
  ce_hwframe_ctx_init :: "int \<times> AVVAAPIFramesContext"
  ce_vaCreateContext :: "VAStatus \<times> VAGenericID"
  ce_vaQueryVideoProcFilterCaps :: "VAStatus \<times> VAProcFilterCapColorBalance list"
  ce_vaCreateBuffer :: "VAStatus \<times> VAGenericID"
  ce_outlink_ref :: bool

text \<open>\<open>procamp_caps[attrib - 1].range\<close>, of the array the query filled.\<close>

definition cap_range ::
  "VAProcFilterCapColorBalance list \<Rightarrow> VAProcColorBalanceType \<Rightarrow> VAProcFilterValueRange" where
  "cap_range procamp_caps a = range (procamp_caps ! (balance_index a - 1))"

text \<open>
  The result is \<open>None\<close> where \<open>av_assert0\<close> ends the program, and otherwise the
  return value with the new state.
\<close>

definition procamp_vaapi_build_filter_params :: "config_env \<Rightarrow> system \<Rightarrow> (int \<times> system) option" where
  "procamp_vaapi_build_filter_params e s =
     (case vaQueryVideoProcFilterCaps (ce_vaQueryVideoProcFilterCaps e) (va_context s) s of
        (vas, procamp_caps, s1) \<Rightarrow>
          if vas \<noteq> VA_STATUS_SUCCESS then Some (AVERROR EIO, s1)
          else
            let procamp_params =
              [\<lparr>param_type = VAProcFilterColorBalance,
                attrib = VAProcColorBalanceBrightness,
                param_value =
                  (if bright s1 \<noteq> 0
                   then av_clip (bright s1)
                          (min_value (cap_range procamp_caps VAProcColorBalanceBrightness))
                          (max_value (cap_range procamp_caps VAProcColorBalanceBrightness))
                   else 0)\<rparr>,
               \<lparr>param_type = VAProcFilterColorBalance,
                attrib = VAProcColorBalanceContrast,
                param_value =
                  (if contrast s1 \<noteq> 1
                   then av_clip (contrast s1)
                          (min_value (cap_range procamp_caps VAProcColorBalanceContrast))
                          (max_value (cap_range procamp_caps VAProcColorBalanceContrast))
                   else 1)\<rparr>,
               \<lparr>param_type = VAProcFilterColorBalance,
                attrib = VAProcColorBalanceHue,
                param_value =
                  (if hue s1 \<noteq> 0
                   then av_clip (hue s1)
                          (min_value (cap_range procamp_caps VAProcColorBalanceHue))
                          (max_value (cap_range procamp_caps VAProcColorBalanceHue))
                   else 0)\<rparr>,
               \<lparr>param_type = VAProcFilterColorBalance,
                attrib = VAProcColorBalanceSaturation,
                param_value =
                  (if saturation s1 \<noteq> 1
                   then av_clip (saturation s1)
                          (min_value (cap_range procamp_caps VAProcColorBalanceSaturation))
                          (max_value (cap_range procamp_caps VAProcColorBalanceSaturation))
                   else 1)\<rparr>]
            in
            if filter_buffer s1 \<noteq> VA_INVALID_ID then None
            else
              (case vaCreateBuffer (ce_vaCreateBuffer e) (va_context s1)
                      (FilterParameters procamp_params) (filter_buffer s1) s1 of
                 (vas2, buf, s2) \<Rightarrow>
                   let s3 = s2\<lparr>filter_buffer := buf\<rparr> in
                   if vas2 \<noteq> VA_STATUS_SUCCESS then Some (AVERROR EIO, s3)
                   else Some (0, s3)))"

subsection \<open>Negotiating the output pool and building the context\<close>

text \<open>
  The search of lines 243 to 247: walk the array up to the terminator and stop at the
  first entry equal to the format; the format is listed when the walk did not stop on
  the terminator. (An array without terminator is not a value the C code can be given;
  the walk then finds nothing.)
\<close>

fun output_format_listed :: "AVPixelFormat \<Rightarrow> AVPixelFormat list \<Rightarrow> bool" where
  "output_format_listed f [] = False"
| "output_format_listed f (x # xs) =
     (if x = AV_PIX_FMT_NONE then False
      else if f = x then True
      else output_format_listed f xs)"

text \<open>
  The label \<open>fail\<close>: \<open>hwconfig\<close> and \<open>constraints\<close> say whether the local pointers
  hold an object; freeing a null pointer does nothing.
\<close>

definition config_output_fail :: "int \<Rightarrow> bool \<Rightarrow> bool \<Rightarrow> system \<Rightarrow> int \<times> system" where
  "config_output_fail err hwconfig constraints s =
     (err, s\<lparr>output_frames_ref := None,
              live_hwconfigs := (if hwconfig then live_hwconfigs s - 1 else live_hwconfigs s),
              live_constraints :=
                (if constraints then live_constraints s - 1 else live_constraints s)\<rparr>)"

text \<open>
  \<open>procamp_vaapi_config_output\<close> is given in four parts, following the source:
  lines 207 to 238 (teardown, device, configuration, constraints), lines 240 to 253
  (the output format), lines 255 to 280 (the output frames context) and lines 282 to
  311 (the execution context, the parameter buffer, the output link). Each part ends
  in the next one or in a return; the later parts are defined first.
\<close>

definition config_output_context ::
  "config_env \<Rightarrow> AVVAAPIFramesContext \<Rightarrow> system \<Rightarrow> (int \<times> system) option" where
  "config_output_context e va_frames s =
     (if va_context s \<noteq> VA_INVALID_ID then None
      else
        (case vaCreateContext (ce_vaCreateContext e) (va_config s)
                (output_width s) (output_height s)
                (surface_ids va_frames) (nb_surfaces va_frames) (va_context s) s of
           (vas, context, s1) \<Rightarrow>
             let s2 = s1\<lparr>va_context := context\<rparr> in
             if vas \<noteq> VA_STATUS_SUCCESS then Some (AVERROR EIO, s2)
             else
               (case procamp_vaapi_build_filter_params e s2 of
                  None \<Rightarrow> None
                | Some (err, s3) \<Rightarrow>
                    if err < 0 then Some (config_output_fail err True True s3)
                    else
                      let s4 = s3\<lparr>outlink_w := output_width s3,
                                  outlink_h := output_height s3\<rparr>
                      in
                      if \<not> ce_outlink_ref e
                      then Some (config_output_fail (AVERROR ENOMEM) True True
                                   (s4\<lparr>outlink_hw_frames_ctx := None\<rparr>))
                      else
                        Some (0, s4\<lparr>outlink_hw_frames_ctx := output_frames_ref s4,
                                      live_hwconfigs := live_hwconfigs s4 - 1,
                                      live_constraints := live_constraints s4 - 1\<rparr>))))"

definition config_output_frames :: "config_env \<Rightarrow> system \<Rightarrow> (int \<times> system) option" where
  "config_output_frames e s =
     (case ce_hwframe_ctx_alloc e of
        None \<Rightarrow> Some (config_output_fail (AVERROR ENOMEM) True True s)
      | Some fresh \<Rightarrow>
          let output_frames =
                fresh\<lparr>hwfc_format := AV_PIX_FMT_VAAPI,
                      hwfc_sw_format := output_format s,
                      hwfc_width := output_width s,
                      hwfc_height := output_height s,
                      hwfc_initial_pool_size := 10\<rparr>;
              err = fst (ce_hwframe_ctx_init e)
          in
          if err < 0
          then Some (config_output_fail err True True
                       (s\<lparr>output_frames_ref := Some output_frames\<rparr>))
          else
            let va_frames = snd (ce_hwframe_ctx_init e) in
            config_output_context e va_frames
              (s\<lparr>output_frames_ref := Some (output_frames\<lparr>hwfc_hwctx := va_frames\<rparr>)\<rparr>))"

definition config_output_format ::
  "config_env \<Rightarrow> AVHWFramesContext \<Rightarrow> AVHWFramesConstraints \<Rightarrow> system
     \<Rightarrow> (int \<times> system) option" where
  "config_output_format e input_frames constraints s =
     (let s1 = (if output_format s = AV_PIX_FMT_NONE
                then s\<lparr>output_format := hwfc_sw_format input_frames\<rparr>
                else s)
      in
      if (case valid_sw_formats constraints of
            None \<Rightarrow> False
          | Some fmts \<Rightarrow> \<not> output_format_listed (output_format s1) fmts)
      then Some (config_output_fail (AVERROR EINVAL) True True s1)
      else config_output_frames e s1)"

definition procamp_vaapi_config_output :: "config_env \<Rightarrow> system \<Rightarrow> (int \<times> system) option" where
  "procamp_vaapi_config_output e s0 =
     (let s1 = snd (procamp_vaapi_pipeline_uninit s0) in
      case input_frames_ref s1 of
        None \<Rightarrow> None
      | Some input_frames \<Rightarrow>
          if \<not> ce_device_ref e then None
          else
            let s2 = s1\<lparr>device_ref := Some (hwfc_device_ref input_frames),
                        hwctx := Some (dev_hwctx (hwfc_device_ref input_frames)),
                        output_width := hwfc_width input_frames,
                        output_height := hwfc_height input_frames\<rparr>
            in
            if va_config s2 \<noteq> VA_INVALID_ID then None
            else
              (case vaCreateConfig (ce_vaCreateConfig e) (va_config s2) s2 of
                 (vas, config, s3) \<Rightarrow>
                   let s4 = s3\<lparr>va_config := config\<rparr> in
                   if vas \<noteq> VA_STATUS_SUCCESS
                   then Some (config_output_fail (AVERROR EIO) False False s4)
                   else if \<not> ce_hwconfig_alloc e
                   then Some (config_output_fail (AVERROR ENOMEM) False False s4)
                   else
                     let s5 = s4\<lparr>live_hwconfigs := Suc (live_hwconfigs s4)\<rparr> in
                     (case ce_constraints e of
                        None \<Rightarrow> Some (config_output_fail (AVERROR ENOMEM) True False s5)
                      | Some constraints \<Rightarrow>
                          config_output_format e input_frames constraints
                            (s5\<lparr>live_constraints := Suc (live_constraints s5)\<rparr>))))"

subsection \<open>Per-frame submission\<close>

fun vaapi_proc_colour_standard :: "AVColorSpace \<Rightarrow> VAProcColorStandardType" where
  "vaapi_proc_colour_standard AVCOL_SPC_BT709 = VAProcColorStandardBT709"
| "vaapi_proc_colour_standard AVCOL_SPC_BT470BG = VAProcColorStandardBT601"
| "vaapi_proc_colour_standard AVCOL_SPC_SMPTE170M = VAProcColorStandardSMPTE170M"
| "vaapi_proc_colour_standard AVCOL_SPC_SMPTE240M = VAProcColorStandardSMPTE240M"
| "vaapi_proc_colour_standard (AVCOL_SPC_OTHER n) = VAProcColorStandardNone"

text \<open>
  Modelled from the spec: \<open>av_frame_copy_props\<close> is a function of \<open>libavutil/frame.c\<close>,
  which is not among the sources. The spec: "Copy all frame metadata (timestamps,
  side-data) from the input descriptor to the output descriptor". Its return value is
  the collaborator's answer.
\<close>

definition av_frame_copy_props :: "int \<Rightarrow> AVFrame \<Rightarrow> AVFrame \<Rightarrow> int \<times> AVFrame" where
  "av_frame_copy_props answer dst src =
     (answer, dst\<lparr>frame_pts := frame_pts src, frame_side_data := frame_side_data src\<rparr>)"

text \<open>
  Modelled from the spec: \<open>ff_filter_frame\<close> is a function of \<open>libavfilter/avfilter.c\<close>,
  which is not among the sources. The spec: the output descriptor is "returned to the
  downstream consumer". The frame passes to the link, whatever the link then answers.
\<close>

definition ff_filter_frame :: "int \<Rightarrow> AVFrame \<Rightarrow> system \<Rightarrow> int \<times> system" where
  "ff_filter_frame answer frame s =
     (answer, s\<lparr>downstream := downstream s @ [frame], live_frames := live_frames s - 1\<rparr>)"

text \<open>
  What the collaborators answer during one \<open>procamp_vaapi_filter_frame\<close>:
  \<^item> \<open>fe_av_frame_alloc\<close>: whether \<open>av_frame_alloc\<close> returns a frame;
  \<^item> \<open>fe_av_hwframe_get_buffer\<close>: the return value of \<open>av_hwframe_get_buffer\<close> and the
    output frame as the call leaves it;
  \<^item> \<open>fe_params_id\<close>: what the uninitialised local \<open>params_id\<close> holds;
  \<^item> \<open>fe_vaBeginPicture\<close>, \<open>fe_vaCreateBuffer\<close>, \<open>fe_vaRenderPicture\<close>,
    \<open>fe_vaEndPicture\<close>: the driver's statuses (and the new buffer id);
  \<^item> \<open>fe_cleanup_vaRenderPicture\<close>, \<open>fe_cleanup_vaEndPicture\<close>: the statuses of the
    two calls under the labels \<open>fail_after_begin\<close> and \<open>fail_after_render\<close>;
  \<^item> \<open>fe_av_frame_copy_props\<close>, \<open>fe_ff_filter_frame\<close>: the two return values.
\<close>

record frame_env =
  fe_av_frame_alloc :: bool
  fe_av_hwframe_get_buffer :: "int \<times> AVFrame"
  fe_params_id :: VAGenericID
  fe_vaBeginPicture :: VAStatus
  fe_vaCreateBuffer :: "VAStatus \<times> VAGenericID"
  fe_vaRenderPicture :: VAStatus
  fe_vaEndPicture :: VAStatus
  fe_cleanup_vaRenderPicture :: VAStatus
  fe_cleanup_vaEndPicture :: VAStatus
  fe_av_frame_copy_props :: int
  fe_ff_filter_frame :: int

text \<open>
  The three labels at the end of the function, each falling through to the next.
  \<open>output_frame\<close> says whether the pointer holds a frame.
\<close>

definition filter_frame_fail :: "int \<Rightarrow> bool \<Rightarrow> system \<Rightarrow> int \<times> system" where
  "filter_frame_fail err output_frame s =
     (err, if output_frame then s\<lparr>live_frames := live_frames s - 1\<rparr> else s)"

definition filter_frame_fail_after_render ::
  "frame_env \<Rightarrow> int \<Rightarrow> bool \<Rightarrow> system \<Rightarrow> int \<times> system" where
  "filter_frame_fail_after_render e err output_frame s =
     filter_frame_fail err output_frame
       (snd (vaEndPicture (fe_cleanup_vaEndPicture e) (va_context s) s))"

definition filter_frame_fail_after_begin ::
  "frame_env \<Rightarrow> int \<Rightarrow> VAGenericID \<Rightarrow> bool \<Rightarrow> system \<Rightarrow> int \<times> system" where
  "filter_frame_fail_after_begin e err params_id output_frame s =
     filter_frame_fail_after_render e err output_frame
       (snd (vaRenderPicture (fe_cleanup_vaRenderPicture e) (va_context s) [params_id] s))"

text \<open>
  \<open>CONFIG_VAAPI_1\<close> is the build-time constant of \<open>config.h\<close>. The result is \<open>None\<close>
  where the program ends on reading \<open>ctx->hwctx\<close> through a null pointer.
\<close>

definition procamp_vaapi_filter_frame ::
  "bool \<Rightarrow> frame_env \<Rightarrow> AVFrame \<Rightarrow> system \<Rightarrow> (int \<times> system) option" where
  "procamp_vaapi_filter_frame CONFIG_VAAPI_1 e input_frame s =
     (if va_context s = VA_INVALID_ID then Some (AVERROR EINVAL, s)
      else
        let input_surface = frame_data3 input_frame in
        if \<not> fe_av_frame_alloc e then Some (filter_frame_fail (AVERROR ENOMEM) False s)
        else
          let s1 = s\<lparr>live_frames := Suc (live_frames s)\<rparr>;
              output_frame = snd (fe_av_hwframe_get_buffer e);
              output_surface = frame_data3 output_frame;
              input_region = \<lparr>rect_x = 0, rect_y = 0,
                              rect_width = frame_width input_frame,
                              rect_height = frame_height input_frame\<rparr>;
              params = \<lparr>surface = input_surface,
                        surface_region = Some input_region,
                        surface_color_standard =
                          vaapi_proc_colour_standard (frame_colorspace input_frame),
                        output_region = None,
                        output_background_color = 0xff000000,
                        output_color_standard =
                          vaapi_proc_colour_standard (frame_colorspace input_frame),
                        pipeline_flags = 0,
                        filter_flags = VA_FRAME_PICTURE,
                        filters = [filter_buffer s1],
                        num_filters = 1\<rparr>
          in
          (case hwctx s1 of
             None \<Rightarrow> None
           | Some hw \<Rightarrow>
               (case vaBeginPicture (fe_vaBeginPicture e) (va_context s1) output_surface s1 of
                  (vas, s2) \<Rightarrow>
                    if vas \<noteq> VA_STATUS_SUCCESS
                    then Some (filter_frame_fail (AVERROR EIO) True s2)
                    else
                      (case vaCreateBuffer (fe_vaCreateBuffer e) (va_context s2)
                              (PipelineParameters params) (fe_params_id e) s2 of
                         (vas2, params_id, s3) \<Rightarrow>
                           if vas2 \<noteq> VA_STATUS_SUCCESS
                           then Some (filter_frame_fail_after_begin e (AVERROR EIO)
                                        params_id True s3)
                           else
                             (case vaRenderPicture (fe_vaRenderPicture e) (va_context s3)
                                     [params_id] s3 of
                                (vas3, s4) \<Rightarrow>
                                  if vas3 \<noteq> VA_STATUS_SUCCESS
                                  then Some (filter_frame_fail_after_begin e (AVERROR EIO)
                                               params_id True s4)
                                  else
                                    (case vaEndPicture (fe_vaEndPicture e) (va_context s4) s4 of
                                       (vas4, s5) \<Rightarrow>
                                         if vas4 \<noteq> VA_STATUS_SUCCESS
                                         then Some (filter_frame_fail_after_render e
                                                      (AVERROR EIO) True s5)
                                         else
                                           let s6 =
                                                 (if CONFIG_VAAPI_1 \<or>
                                                     driver_quirks hw AND
                                                       AV_VAAPI_DRIVER_QUIRK_RENDER_PARAM_BUFFERS
                                                       \<noteq> 0
                                                  then vaDestroyBuffer params_id s5
                                                  else s5)
                                           in
                                           (case av_frame_copy_props (fe_av_frame_copy_props e)
                                                   output_frame input_frame of
                                              (err, output_frame') \<Rightarrow>
                                                if err < 0
                                                then Some (filter_frame_fail err True s6)
                                                else
                                                  let s7 = s6\<lparr>released_inputs :=
                                                               released_inputs s6 @ [input_frame]\<rparr>
                                                  in
                                                  Some (ff_filter_frame (fe_ff_filter_frame e)
                                                          output_frame' s7))))))))"

subsection \<open>Notions of the specification\<close>

text \<open>
  The value the specification gives for a control with logical default \<open>dflt\<close>, user
  value \<open>v\<close> and queried range \<open>r\<close>: the default itself, otherwise
  \<open>max(min, min(v, max))\<close>.
\<close>

definition spec_encoded :: "real \<Rightarrow> real \<Rightarrow> VAProcFilterValueRange \<Rightarrow> real" where
  "spec_encoded dflt v r = (if v = dflt then dflt else max (min_value r) (min v (max_value r)))"

text \<open>The capability array as the query leaves it.\<close>

definition queried_caps :: "config_env \<Rightarrow> system \<Rightarrow> VAProcFilterCapColorBalance list" where
  "queried_caps e s =
     fst (snd (vaQueryVideoProcFilterCaps (ce_vaQueryVideoProcFilterCaps e) (va_context s) s))"

text \<open>The destroy calls of a teardown, in reverse order of creation.\<close>

definition teardown_calls :: "system \<Rightarrow> va_call list" where
  "teardown_calls s =
     (if filter_buffer s \<noteq> VA_INVALID_ID then [VaDestroyBuffer (filter_buffer s)] else [])
     @ (if va_context s \<noteq> VA_INVALID_ID then [VaDestroyContext (va_context s)] else [])
     @ (if va_config s \<noteq> VA_INVALID_ID then [VaDestroyConfig (va_config s)] else [])"

text \<open>
  The live driver objects are those whose ids the context holds: no configuration,
  execution context or parameter buffer is live that the context has lost track of.
\<close>

definition owned_ids_live :: "system \<Rightarrow> bool" where
  "owned_ids_live s \<longleftrightarrow>
     live_configs s = (if va_config s = VA_INVALID_ID then [] else [va_config s]) \<and>
     live_contexts s = (if va_context s = VA_INVALID_ID then [] else [va_context s]) \<and>
     live_buffers s = (if filter_buffer s = VA_INVALID_ID then [] else [filter_buffer s])"

text \<open>
  What a later part of \<open>procamp_vaapi_config_output\<close> keeps of the state it starts in:
  the configuration and the input stay, and the execution context and parameter buffer
  that are live are the ones recorded.
\<close>

definition stage_inv :: "system \<Rightarrow> system \<Rightarrow> bool" where
  "stage_inv s s' \<longleftrightarrow> live_configs s' = live_configs s \<and> va_config s' = va_config s \<and>
     input_frames_ref s' = input_frames_ref s \<and>
     live_contexts s' = (if va_context s' = VA_INVALID_ID then [] else [va_context s']) \<and>
     live_buffers s' = (if filter_buffer s' = VA_INVALID_ID then [] else [filter_buffer s'])"

text \<open>A driver never hands out \<open>VA_INVALID_ID\<close> as the id of a new object.\<close>

definition driver_ids_valid :: "config_env \<Rightarrow> bool" where
  "driver_ids_valid e \<longleftrightarrow>
     (fst (ce_vaCreateConfig e) = VA_STATUS_SUCCESS \<longrightarrow>
        snd (ce_vaCreateConfig e) \<noteq> VA_INVALID_ID) \<and>
     (fst (ce_vaCreateContext e) = VA_STATUS_SUCCESS \<longrightarrow>
        snd (ce_vaCreateContext e) \<noteq> VA_INVALID_ID) \<and>
     (fst (ce_vaCreateBuffer e) = VA_STATUS_SUCCESS \<longrightarrow>
        snd (ce_vaCreateBuffer e) \<noteq> VA_INVALID_ID)"

text \<open>
  Consecutive rebuilds: one \<open>procamp_vaapi_config_output\<close> per environment, each on
  the state the previous one left, whatever it returned.
\<close>

fun rebuilds :: "config_env list \<Rightarrow> system \<Rightarrow> system option" where
  "rebuilds [] s = Some s"
| "rebuilds (e # es) s =
     (case procamp_vaapi_config_output e s of
        None \<Rightarrow> None
      | Some (r, s') \<Rightarrow> rebuilds es s')"

text \<open>
  The format a negotiation works with: the one held in the context, or the native
  format of the input frames when the context holds none.
\<close>

definition negotiated_format :: "AVHWFramesContext \<Rightarrow> system \<Rightarrow> AVPixelFormat" where
  "negotiated_format input_frames s =
     (if output_format s = AV_PIX_FMT_NONE then hwfc_sw_format input_frames else output_format s)"

text \<open>The collaborators after the format check all succeed.\<close>

definition rest_succeeds :: "config_env \<Rightarrow> bool" where
  "rest_succeeds e \<longleftrightarrow>
     ce_hwframe_ctx_alloc e \<noteq> None \<and> 0 \<le> fst (ce_hwframe_ctx_init e) \<and>
     fst (ce_vaCreateContext e) = VA_STATUS_SUCCESS \<and>
     fst (ce_vaQueryVideoProcFilterCaps e) = VA_STATUS_SUCCESS \<and>
     fst (ce_vaCreateBuffer e) = VA_STATUS_SUCCESS \<and> ce_outlink_ref e"

text \<open>
  A submission reaches the hand-over to the output link when the context is built and
  every step before \<open>ff_filter_frame\<close> succeeds.
\<close>

definition reaches_link :: "frame_env \<Rightarrow> system \<Rightarrow> bool" where
  "reaches_link e s \<longleftrightarrow>
     va_context s \<noteq> VA_INVALID_ID \<and> fe_av_frame_alloc e \<and>
     fe_vaBeginPicture e = VA_STATUS_SUCCESS \<and>
     fst (fe_vaCreateBuffer e) = VA_STATUS_SUCCESS \<and>
     fe_vaRenderPicture e = VA_STATUS_SUCCESS \<and>
     fe_vaEndPicture e = VA_STATUS_SUCCESS \<and>
     0 \<le> fe_av_frame_copy_props e"

subsection \<open>A sample device, stream and frame\<close>

text \<open>
  The private context as the filter framework hands it to \<open>procamp_vaapi_init\<close>:
  zeroed, with the options at their defaults; nothing allocated, nothing called.
\<close>

definition priv_defaults :: system where
  "priv_defaults =
     \<lparr>hwctx = None, device_ref = None, valid_ids = 0, va_config = 0, va_context = 0,
      input_frames_ref = None, output_frames_ref = None,
      output_format = AV_PIX_FMT_NONE, output_width = 0, output_height = 0,
      bright = 0, hue = 0, saturation = 1, contrast = 1, filter_buffer = 0,
      va_calls = [], live_configs = [], live_contexts = [], live_buffers = [],
      live_hwconfigs = 0, live_constraints = 0, live_frames = 0,
      released_inputs = [], downstream = [],
      outlink_w = 0, outlink_h = 0, outlink_hw_frames_ctx = None\<rparr>"

definition sample_device :: AVHWDeviceContext where
  "sample_device = \<lparr>dev_hwctx = \<lparr>driver_quirks = 0\<rparr>\<rparr>"

definition sample_input_frames :: AVHWFramesContext where
  "sample_input_frames =
     \<lparr>hwfc_device_ref = sample_device, hwfc_format = AV_PIX_FMT_VAAPI,
      hwfc_sw_format = AV_PIX_FMT_NV12, hwfc_width = 1920, hwfc_height = 1080,
      hwfc_initial_pool_size = 0,
      hwfc_hwctx = \<lparr>surface_ids = [], nb_surfaces = 0\<rparr>\<rparr>"

definition sample_caps :: "VAProcFilterCapColorBalance list" where
  "sample_caps =
     [\<lparr>cap_type = VAProcColorBalanceHue,
       range = \<lparr>min_value = -180, max_value = 180, default_value = 0, step = 1\<rparr>\<rparr>,
      \<lparr>cap_type = VAProcColorBalanceSaturation,
       range = \<lparr>min_value = 0, max_value = 10, default_value = 1, step = 1 / 10\<rparr>\<rparr>,
      \<lparr>cap_type = VAProcColorBalanceBrightness,
       range = \<lparr>min_value = -50, max_value = 50, default_value = 0, step = 1\<rparr>\<rparr>,
      \<lparr>cap_type = VAProcColorBalanceContrast,
       range = \<lparr>min_value = 0, max_value = 10, default_value = 1, step = 1 / 10\<rparr>\<rparr>]"

definition sample_surfaces :: AVVAAPIFramesContext where
  "sample_surfaces = \<lparr>surface_ids = [10, 11, 12, 13, 14, 15, 16, 17, 18, 19], nb_surfaces = 10\<rparr>"

definition sample_config_env :: config_env where
  "sample_config_env =
     \<lparr>ce_device_ref = True,
      ce_vaCreateConfig = (VA_STATUS_SUCCESS, 1),
      ce_hwconfig_alloc = True,
      ce_constraints =
        Some \<lparr>valid_sw_formats =
                Some [AV_PIX_FMT_NV12, AV_PIX_FMT_YUV420P, AV_PIX_FMT_NONE]\<rparr>,
      ce_hwframe_ctx_alloc =
        Some \<lparr>hwfc_device_ref = sample_device, hwfc_format = AV_PIX_FMT_NONE,
              hwfc_sw_format = AV_PIX_FMT_NONE, hwfc_width = 0, hwfc_height = 0,
              hwfc_initial_pool_size = 0,
              hwfc_hwctx = \<lparr>surface_ids = [], nb_surfaces = 0\<rparr>\<rparr>,
      ce_hwframe_ctx_init = (0, sample_surfaces),
      ce_vaCreateContext = (VA_STATUS_SUCCESS, 2),
      ce_vaQueryVideoProcFilterCaps = (VA_STATUS_SUCCESS, sample_caps),
      ce_vaCreateBuffer = (VA_STATUS_SUCCESS, 3),
      ce_outlink_ref = True\<rparr>"

text \<open>After \<open>procamp_vaapi_init\<close> and \<open>procamp_vaapi_config_input\<close> on the sample stream.\<close>

definition configured_system :: system where
  "configured_system =
     (snd (procamp_vaapi_init priv_defaults))\<lparr>input_frames_ref := Some sample_input_frames\<rparr>"

definition sample_pool :: AVHWFramesContext where
  "sample_pool =
     \<lparr>hwfc_device_ref = sample_device, hwfc_format = AV_PIX_FMT_VAAPI,
      hwfc_sw_format = AV_PIX_FMT_NV12, hwfc_width = 1920, hwfc_height = 1080,
      hwfc_initial_pool_size = 10, hwfc_hwctx = sample_surfaces\<rparr>"

definition sample_build_calls :: "va_call list" where
  "sample_build_calls =
     [VaCreateConfig,
      VaCreateContext 1 1920 1080 [10, 11, 12, 13, 14, 15, 16, 17, 18, 19] 10,
      VaQueryVideoProcFilterCaps 2,
      VaCreateBuffer 2
        (FilterParameters
          [\<lparr>param_type = VAProcFilterColorBalance, attrib = VAProcColorBalanceBrightness,
            param_value = 0\<rparr>,
           \<lparr>param_type = VAProcFilterColorBalance, attrib = VAProcColorBalanceContrast,
            param_value = 1\<rparr>,
           \<lparr>param_type = VAProcFilterColorBalance, attrib = VAProcColorBalanceHue,
            param_value = 0\<rparr>,
           \<lparr>param_type = VAProcFilterColorBalance, attrib = VAProcColorBalanceSaturation,
            param_value = 1\<rparr>])]"

text \<open>After \<open>procamp_vaapi_config_output\<close> on the sample device: the context is built.\<close>

definition ready_system :: system where
  "ready_system =
     configured_system
       \<lparr>hwctx := Some \<lparr>driver_quirks = 0\<rparr>, device_ref := Some sample_device,
        va_config := 1, va_context := 2,
        output_frames_ref := Some sample_pool,
        output_format := AV_PIX_FMT_NV12, output_width := 1920, output_height := 1080,
        filter_buffer := 3,
        va_calls := sample_build_calls,
        live_configs := [1], live_contexts := [2], live_buffers := [3],
        outlink_w := 1920, outlink_h := 1080, outlink_hw_frames_ctx := Some sample_pool\<rparr>"

definition sample_frame :: AVFrame where
  "sample_frame =
     \<lparr>frame_format = AV_PIX_FMT_VAAPI, frame_width = 1920, frame_height = 1080,
      frame_colorspace = AVCOL_SPC_BT709, frame_pts = 40, frame_side_data = [7],
      frame_data3 = 100\<rparr>"

text \<open>A frame as \<open>av_frame_alloc\<close> leaves it, no buffer attached.\<close>

definition blank_frame :: AVFrame where
  "blank_frame =
     \<lparr>frame_format = AV_PIX_FMT_NONE, frame_width = 0, frame_height = 0,
      frame_colorspace = AVCOL_SPC_OTHER 2, frame_pts = 0, frame_side_data = [],
      frame_data3 = 0\<rparr>"

definition sample_frame_env :: frame_env where
  "sample_frame_env =
     \<lparr>fe_av_frame_alloc = True,
      fe_av_hwframe_get_buffer = (0, blank_frame\<lparr>frame_format := AV_PIX_FMT_VAAPI,
                                     frame_width := 1920, frame_height := 1080,
                                     frame_data3 := 10\<rparr>),
      fe_params_id = 0,
      fe_vaBeginPicture = VA_STATUS_SUCCESS,
      fe_vaCreateBuffer = (VA_STATUS_SUCCESS, 4),
      fe_vaRenderPicture = VA_STATUS_SUCCESS,
      fe_vaEndPicture = VA_STATUS_SUCCESS,
      fe_cleanup_vaRenderPicture = VA_STATUS_SUCCESS,
      fe_cleanup_vaEndPicture = VA_STATUS_SUCCESS,
      fe_av_frame_copy_props = 0,
      fe_ff_filter_frame = 0\<rparr>"

text \<open>The sample stream after a change of its native format to P010.\<close>

definition p010_input_frames :: AVHWFramesContext where
  "p010_input_frames = sample_input_frames\<lparr>hwfc_sw_format := AV_PIX_FMT_P010\<rparr>"

text \<open>The pipeline parameters of the sample frame on the sample context.\<close>

definition sample_pipeline_params :: VAProcPipelineParameterBuffer where
  "sample_pipeline_params =
     \<lparr>surface = 100,
      surface_region = Some \<lparr>rect_x = 0, rect_y = 0, rect_width = 1920, rect_height = 1080\<rparr>,
      surface_color_standard = VAProcColorStandardBT709,
      output_region = None,
      output_background_color = 0xff000000,
      output_color_standard = VAProcColorStandardBT709,
      pipeline_flags = 0, filter_flags = 0, filters = [3], num_filters = 1\<rparr>"

text \<open>
  A context about to build its parameter buffer, with user values 150 for brightness,
  the default 1 for contrast, -200 for hue and 3/2 for saturation.
\<close>

definition bright_system :: system where
  "bright_system =
     ready_system\<lparr>bright := 150, contrast := 1, hue := -200, saturation := 3 / 2,
                  filter_buffer := VA_INVALID_ID, live_buffers := []\<rparr>"

section \<open>Properties\<close>

subsection \<open>Unfolding rules and the sample run\<close>

lemmas sample_defs = ready_system_def configured_system_def priv_defaults_def
  procamp_vaapi_init_def sample_pool_def sample_build_calls_def sample_device_def
  sample_input_frames_def sample_config_env_def sample_caps_def sample_surfaces_def
  sample_frame_def sample_frame_env_def blank_frame_def

lemmas status_defs = VA_INVALID_ID_def VA_STATUS_SUCCESS_def AVERROR_def EIO_def ENOMEM_def
  EINVAL_def

lemmas driver_defs = vaCreateConfig_def vaCreateContext_def vaCreateBuffer_def
  vaQueryVideoProcFilterCaps_def vaDestroyBuffer_def vaDestroyContext_def vaDestroyConfig_def
  vaBeginPicture_def vaRenderPicture_def vaEndPicture_def

lemmas config_defs = procamp_vaapi_config_output_def config_output_format_def
  config_output_frames_def
  config_output_context_def procamp_vaapi_build_filter_params_def
  procamp_vaapi_pipeline_uninit_def config_output_fail_def
  cap_range_def av_clip_def zero_cap_def VAProcColorBalanceCount_def Let_def

lemmas frame_defs = procamp_vaapi_filter_frame_def filter_frame_fail_def
  filter_frame_fail_after_render_def filter_frame_fail_after_begin_def
  av_frame_copy_props_def ff_filter_frame_def Let_def

lemma configured_system_reached:
  "procamp_vaapi_config_input True (Some sample_input_frames)
     (snd (procamp_vaapi_init priv_defaults)) = Some (0, configured_system)"
  by (simp add: procamp_vaapi_config_input_def procamp_vaapi_pipeline_uninit_def
      procamp_vaapi_init_def configured_system_def priv_defaults_def Let_def)

lemma ready_system_reached:
  "procamp_vaapi_config_output sample_config_env configured_system = Some (0, ready_system)"
  by (simp add: config_defs driver_defs status_defs sample_defs)

lemmas eval_defs = frame_defs driver_defs status_defs sample_defs sample_pipeline_params_def
  VA_FRAME_PICTURE_def AV_VAAPI_DRIVER_QUIRK_RENDER_PARAM_BUFFERS_def

subsection \<open>Teardown and rebuilds\<close>

lemma uninit_calls:
  "va_calls (snd (procamp_vaapi_pipeline_uninit s)) = va_calls s @ teardown_calls s"
  by (simp add: procamp_vaapi_pipeline_uninit_def driver_defs teardown_calls_def Let_def)

lemma uninit_idem:
  "procamp_vaapi_pipeline_uninit (snd (procamp_vaapi_pipeline_uninit s)) =
     (0, snd (procamp_vaapi_pipeline_uninit s))"
  by (simp add: procamp_vaapi_pipeline_uninit_def driver_defs Let_def)

lemma uninit_ids:
  "va_config (snd (procamp_vaapi_pipeline_uninit s)) = VA_INVALID_ID"
  "va_context (snd (procamp_vaapi_pipeline_uninit s)) = VA_INVALID_ID"
  "filter_buffer (snd (procamp_vaapi_pipeline_uninit s)) = VA_INVALID_ID"
  by (simp_all add: procamp_vaapi_pipeline_uninit_def driver_defs Let_def)

lemma uninit_keeps:
  "input_frames_ref (snd (procamp_vaapi_pipeline_uninit s)) = input_frames_ref s"
  "output_format (snd (procamp_vaapi_pipeline_uninit s)) = output_format s"
  by (simp_all add: procamp_vaapi_pipeline_uninit_def driver_defs Let_def)

lemma uninit_live:
  assumes "owned_ids_live s"
  shows "live_configs (snd (procamp_vaapi_pipeline_uninit s)) = []"
    and "live_contexts (snd (procamp_vaapi_pipeline_uninit s)) = []"
    and "live_buffers (snd (procamp_vaapi_pipeline_uninit s)) = []"
  using assms
  by (simp_all add: owned_ids_live_def procamp_vaapi_pipeline_uninit_def driver_defs Let_def)

lemma build_filter_params_total:
  assumes "filter_buffer s = VA_INVALID_ID"
  shows "\<exists>r s'. procamp_vaapi_build_filter_params e s = Some (r, s')"
  using assms
  by (simp add: procamp_vaapi_build_filter_params_def driver_defs Let_def)

lemma build_filter_params_frame:
  assumes "procamp_vaapi_build_filter_params e s = Some (r, s')"
  shows "live_configs s' = live_configs s" "live_contexts s' = live_contexts s"
    "va_config s' = va_config s" "va_context s' = va_context s"
    "input_frames_ref s' = input_frames_ref s" "output_frames_ref s' = output_frames_ref s"
    "output_format s' = output_format s" "output_width s' = output_width s"
    "output_height s' = output_height s"
  using assms
  by (auto simp: procamp_vaapi_build_filter_params_def driver_defs Let_def split: if_splits)

lemma build_filter_params_buffer:
  assumes "procamp_vaapi_build_filter_params e s = Some (r, s')"
    and "live_buffers s = []" and "filter_buffer s = VA_INVALID_ID"
    and "fst (ce_vaCreateBuffer e) = VA_STATUS_SUCCESS \<longrightarrow> snd (ce_vaCreateBuffer e) \<noteq> VA_INVALID_ID"
  shows "live_buffers s' = (if filter_buffer s' = VA_INVALID_ID then [] else [filter_buffer s'])"
  using assms
  by (auto simp: procamp_vaapi_build_filter_params_def driver_defs Let_def split: if_splits)

lemma config_output_context_owned:
  assumes "va_context s = VA_INVALID_ID" "live_contexts s = []"
    and "filter_buffer s = VA_INVALID_ID" "live_buffers s = []"
    and "driver_ids_valid e"
  shows "\<exists>r s'. config_output_context e vf s = Some (r, s') \<and> stage_inv s s'"
proof (cases "fst (ce_vaCreateContext e) = VA_STATUS_SUCCESS")
  case False
  with assms show ?thesis
    by (simp add: config_output_context_def vaCreateContext_def stage_inv_def Let_def)
next
  case True
  let ?s2 = "(snd (snd (vaCreateContext (ce_vaCreateContext e) (va_config s)
                (output_width s) (output_height s)
                (surface_ids vf) (nb_surfaces vf) (va_context s) s)))
             \<lparr>va_context := snd (ce_vaCreateContext e)\<rparr>"
  have fb: "filter_buffer ?s2 = VA_INVALID_ID" "live_buffers ?s2 = []"
    using assms by (simp_all add: vaCreateContext_def)
  obtain r s3 where b: "procamp_vaapi_build_filter_params e ?s2 = Some (r, s3)"
    using build_filter_params_total [OF fb(1)] by blast
  note fr = build_filter_params_frame [OF b]
  have buf: "live_buffers s3 = (if filter_buffer s3 = VA_INVALID_ID then [] else [filter_buffer s3])"
    using build_filter_params_buffer [OF b fb(2,1)] assms(5) by (simp add: driver_ids_valid_def)
  show ?thesis
    using assms True b fr buf
    by (simp add: config_output_context_def vaCreateContext_def stage_inv_def Let_def
        config_output_fail_def driver_ids_valid_def)
qed


lemma config_output_frames_owned:
  assumes "va_context s = VA_INVALID_ID" "live_contexts s = []"
    and "filter_buffer s = VA_INVALID_ID" "live_buffers s = []"
    and "driver_ids_valid e"
  shows "\<exists>r s'. config_output_frames e s = Some (r, s') \<and> stage_inv s s'"
proof (cases "ce_hwframe_ctx_alloc e")
  case None
  with assms show ?thesis
    by (simp add: config_output_frames_def config_output_fail_def stage_inv_def)
next
  case (Some fresh)
  show ?thesis
  proof (cases "fst (ce_hwframe_ctx_init e) < 0")
    case True
    with assms Some show ?thesis
      by (simp add: config_output_frames_def config_output_fail_def stage_inv_def Let_def)
  next
    case False
    let ?s1 = "s\<lparr>output_frames_ref :=
                 Some (fresh\<lparr>hwfc_format := AV_PIX_FMT_VAAPI,
                             hwfc_sw_format := output_format s,
                             hwfc_width := output_width s,
                             hwfc_height := output_height s,
                             hwfc_initial_pool_size := 10,
                             hwfc_hwctx := snd (ce_hwframe_ctx_init e)\<rparr>)\<rparr>"
    have "\<exists>r s'. config_output_context e (snd (ce_hwframe_ctx_init e)) ?s1 = Some (r, s') \<and>
            stage_inv ?s1 s'"
      using assms by (intro config_output_context_owned) simp_all
    with Some False show ?thesis
      by (simp add: config_output_frames_def Let_def stage_inv_def)
  qed
qed

lemma config_output_format_owned:
  assumes "va_context s = VA_INVALID_ID" "live_contexts s = []"
    and "filter_buffer s = VA_INVALID_ID" "live_buffers s = []"
    and "driver_ids_valid e"
  shows "\<exists>r s'. config_output_format e inp c s = Some (r, s') \<and> stage_inv s s'"
proof -
  define s1 where "s1 = (if output_format s = AV_PIX_FMT_NONE
                then s\<lparr>output_format := hwfc_sw_format inp\<rparr> else s)"
  have "\<exists>r s'. config_output_frames e s1 = Some (r, s') \<and> stage_inv s1 s'"
    using assms by (intro config_output_frames_owned) (simp_all add: s1_def)
  then obtain r s' where fr: "config_output_frames e s1 = Some (r, s')" "stage_inv s1 s'"
    by blast
  have inv: "stage_inv s s'" "stage_inv s (snd (config_output_fail (AVERROR EINVAL) True True s1))"
    using fr(2) assms(1-4) by (simp_all add: stage_inv_def s1_def config_output_fail_def)
  have "config_output_format e inp c s = Some (r, s') \<or>
        config_output_format e inp c s = Some (config_output_fail (AVERROR EINVAL) True True s1)"
    using fr(1) unfolding config_output_format_def s1_def [symmetric] Let_def by simp
  with inv show ?thesis
    by (cases "config_output_fail (AVERROR EINVAL) True True s1") auto
qed

lemma config_output_owned:
  assumes "owned_ids_live s" and "input_frames_ref s = Some inp"
    and "ce_device_ref e" and "driver_ids_valid e"
  shows "\<exists>r s'. procamp_vaapi_config_output e s = Some (r, s') \<and> owned_ids_live s' \<and>
           input_frames_ref s' = Some inp"
proof (cases "fst (ce_vaCreateConfig e) = VA_STATUS_SUCCESS \<and> ce_hwconfig_alloc e \<and>
                 ce_constraints e \<noteq> None")
  case False
  with assms(2-4) uninit_live [OF assms(1)] uninit_ids [of s] uninit_keeps [of s] show ?thesis
    by (auto simp: procamp_vaapi_config_output_def vaCreateConfig_def config_output_fail_def
        owned_ids_live_def driver_ids_valid_def Let_def)
next
  case True
  then obtain c where c: "ce_constraints e = Some c" by auto
  have valid: "snd (ce_vaCreateConfig e) \<noteq> VA_INVALID_ID"
    using True assms(4) by (simp add: driver_ids_valid_def)
  have "\<exists>s6. procamp_vaapi_config_output e s = config_output_format e inp c s6 \<and>
          va_context s6 = VA_INVALID_ID \<and> live_contexts s6 = [] \<and>
          filter_buffer s6 = VA_INVALID_ID \<and> live_buffers s6 = [] \<and>
          va_config s6 = snd (ce_vaCreateConfig e) \<and>
          live_configs s6 = [snd (ce_vaCreateConfig e)] \<and>
          input_frames_ref s6 = Some inp"
    using True c assms(2-3) uninit_live [OF assms(1)] uninit_ids [of s] uninit_keeps [of s]
    unfolding procamp_vaapi_config_output_def Let_def
    apply (simp add: vaCreateConfig_def)
    apply (rule exI, rule conjI, rule refl)
    apply simp
    done
  then obtain s6 where s6: "procamp_vaapi_config_output e s = config_output_format e inp c s6"
    "va_context s6 = VA_INVALID_ID" "live_contexts s6 = []"
    "filter_buffer s6 = VA_INVALID_ID" "live_buffers s6 = []"
    "va_config s6 = snd (ce_vaCreateConfig e)"
    "live_configs s6 = [snd (ce_vaCreateConfig e)]"
    "input_frames_ref s6 = Some inp"
    by blast
  obtain r s' where fr: "config_output_format e inp c s6 = Some (r, s')" "stage_inv s6 s'"
    using config_output_format_owned [OF s6(2-5) assms(4)] by blast
  have "owned_ids_live s'" "input_frames_ref s' = Some inp"
    using fr(2) s6(6-8) valid by (simp_all add: stage_inv_def owned_ids_live_def)
  with s6(1) fr(1) show ?thesis by simp
qed

lemma rebuilds_owned:
  assumes "owned_ids_live s" and "input_frames_ref s = Some inp"
    and "\<forall>e \<in> set es. ce_device_ref e \<and> driver_ids_valid e"
  shows "\<exists>s'. rebuilds es s = Some s' \<and> owned_ids_live s' \<and> input_frames_ref s' = Some inp"
  using assms
proof (induction es arbitrary: s)
  case Nil
  then show ?case by simp
next
  case (Cons e es)
  from Cons.prems obtain r s1 where
    step: "procamp_vaapi_config_output e s = Some (r, s1)" "owned_ids_live s1"
      "input_frames_ref s1 = Some inp"
    using config_output_owned [of s inp e] by auto
  from Cons.IH [OF step(2,3)] Cons.prems(3) step(1) show ?case by simp
qed

lemma owned_at_most_one:
  "owned_ids_live s \<Longrightarrow>
     length (live_configs s) \<le> 1 \<and> length (live_contexts s) \<le> 1 \<and> length (live_buffers s) \<le> 1"
  by (simp add: owned_ids_live_def)

text \<open>
  Claim C5. Teardown issues its destroy calls in reverse order of creation (parameter
  buffer, execution context, configuration, each only if it exists); a second teardown
  changes nothing and calls nothing; and after any number of consecutive rebuilds, each
  of which starts with the teardown, the driver holds at most one configuration, one
  execution context and one parameter buffer, namely those the context records. The
  rebuilds start from a state that has lost track of no object and has an input frames
  context, with a device reference available and a driver that gives no new object the
  id \<open>VA_INVALID_ID\<close>; every rebuild then returns. (The order of creation, configuration
  then execution context then parameter buffer, is the order of the calls in
  \<open>sample_build_calls\<close>.)
\<close>

theorem C5_teardown_and_rebuilds:
  "va_calls (snd (procamp_vaapi_pipeline_uninit s)) = va_calls s @ teardown_calls s \<and>
   procamp_vaapi_pipeline_uninit (snd (procamp_vaapi_pipeline_uninit s)) =
     (0, snd (procamp_vaapi_pipeline_uninit s)) \<and>
   (owned_ids_live s \<and> input_frames_ref s \<noteq> None \<and>
    (\<forall>e \<in> set es. ce_device_ref e \<and> driver_ids_valid e) \<longrightarrow>
      (\<exists>s'. rebuilds es s = Some s' \<and> owned_ids_live s' \<and>
         length (live_configs s') \<le> 1 \<and> length (live_contexts s') \<le> 1 \<and>
         length (live_buffers s') \<le> 1))"
proof (intro conjI impI)
  show "va_calls (snd (procamp_vaapi_pipeline_uninit s)) = va_calls s @ teardown_calls s"
    by (rule uninit_calls)
  show "procamp_vaapi_pipeline_uninit (snd (procamp_vaapi_pipeline_uninit s)) =
     (0, snd (procamp_vaapi_pipeline_uninit s))"
    by (rule uninit_idem)
next
  assume a: "owned_ids_live s \<and> input_frames_ref s \<noteq> None \<and>
    (\<forall>e \<in> set es. ce_device_ref e \<and> driver_ids_valid e)"
  then obtain inp where inp: "input_frames_ref s = Some inp" by auto
  from a inp obtain s' where "rebuilds es s = Some s'" "owned_ids_live s'"
    using rebuilds_owned [of s inp es] by blast
  then show "\<exists>s'. rebuilds es s = Some s' \<and> owned_ids_live s' \<and>
         length (live_configs s') \<le> 1 \<and> length (live_contexts s') \<le> 1 \<and>
         length (live_buffers s') \<le> 1"
    using owned_at_most_one by blast
qed

text \<open>
  Four rebuilds on the sample stream; in the second the driver refuses the execution
  context, in the third the parameter buffer.
\<close>

theorem C5_teardown_and_rebuilds_witness:
  "owned_ids_live configured_system \<and>
   input_frames_ref configured_system = Some sample_input_frames \<and>
   (\<exists>s'. rebuilds [sample_config_env,
                 sample_config_env\<lparr>ce_vaCreateContext := (1, 0)\<rparr>,
                 sample_config_env\<lparr>ce_vaCreateBuffer := (1, 0)\<rparr>,
                 sample_config_env] configured_system = Some s' \<and> owned_ids_live s' \<and>
         length (live_configs s') \<le> 1 \<and> length (live_contexts s') \<le> 1 \<and>
         length (live_buffers s') \<le> 1)"
proof -
  have h: "owned_ids_live configured_system \<and> input_frames_ref configured_system \<noteq> None \<and>
   (\<forall>e \<in> set [sample_config_env,
                 sample_config_env\<lparr>ce_vaCreateContext := (1, 0)\<rparr>,
                 sample_config_env\<lparr>ce_vaCreateBuffer := (1, 0)\<rparr>,
                 sample_config_env]. ce_device_ref e \<and> driver_ids_valid e)"
    by (simp add: owned_ids_live_def driver_ids_valid_def sample_defs status_defs)
  from h C5_teardown_and_rebuilds [of configured_system "[sample_config_env,
                 sample_config_env\<lparr>ce_vaCreateContext := (1, 0)\<rparr>,
                 sample_config_env\<lparr>ce_vaCreateBuffer := (1, 0)\<rparr>,
                 sample_config_env]"]
  show ?thesis by (simp add: configured_system_def)
qed

subsection \<open>The parameter buffer\<close>

text \<open>
  Claim C1. When the capability query succeeds, the builder submits one buffer holding
  the four controls in the order brightness, contrast, hue, saturation; each value is
  the control's logical default (0, 1, 0, 1) when the user value equals it, whatever
  the queried range, and otherwise the user value clamped to the range read at the
  control's slot of the capability array, \<open>max(min, min(v, max))\<close>.
\<close>

theorem C1_encoded_values:
  assumes "fst (ce_vaQueryVideoProcFilterCaps e) = VA_STATUS_SUCCESS"
    and "filter_buffer s = VA_INVALID_ID"
  shows "\<exists>r s'. procamp_vaapi_build_filter_params e s = Some (r, s') \<and>
           last (va_calls s') =
             VaCreateBuffer (va_context s)
               (FilterParameters
                 [\<lparr>param_type = VAProcFilterColorBalance, attrib = VAProcColorBalanceBrightness,
                   param_value = spec_encoded 0 (bright s)
                     (cap_range (queried_caps e s) VAProcColorBalanceBrightness)\<rparr>,
                  \<lparr>param_type = VAProcFilterColorBalance, attrib = VAProcColorBalanceContrast,
                   param_value = spec_encoded 1 (contrast s)
                     (cap_range (queried_caps e s) VAProcColorBalanceContrast)\<rparr>,
                  \<lparr>param_type = VAProcFilterColorBalance, attrib = VAProcColorBalanceHue,
                   param_value = spec_encoded 0 (hue s)
                     (cap_range (queried_caps e s) VAProcColorBalanceHue)\<rparr>,
                  \<lparr>param_type = VAProcFilterColorBalance, attrib = VAProcColorBalanceSaturation,
                   param_value = spec_encoded 1 (saturation s)
                     (cap_range (queried_caps e s) VAProcColorBalanceSaturation)\<rparr>])"
  using assms
  by (simp add: procamp_vaapi_build_filter_params_def vaQueryVideoProcFilterCaps_def
      vaCreateBuffer_def queried_caps_def spec_encoded_def av_clip_def Let_def)

text \<open>
  Brightness 150 on a device range of -50 to 50 is encoded as 50, hue -200 on -180 to
  180 as -180, saturation 3/2 as itself, and the default contrast as 1.
\<close>

theorem C1_encoded_values_witness:
  "fst (ce_vaQueryVideoProcFilterCaps sample_config_env) = VA_STATUS_SUCCESS \<and>
   filter_buffer bright_system = VA_INVALID_ID \<and>
   (\<exists>r s'. procamp_vaapi_build_filter_params sample_config_env bright_system = Some (r, s') \<and>
      last (va_calls s') =
        VaCreateBuffer 2
          (FilterParameters
            [\<lparr>param_type = VAProcFilterColorBalance, attrib = VAProcColorBalanceBrightness,
              param_value = 50\<rparr>,
             \<lparr>param_type = VAProcFilterColorBalance, attrib = VAProcColorBalanceContrast,
              param_value = 1\<rparr>,
             \<lparr>param_type = VAProcFilterColorBalance, attrib = VAProcColorBalanceHue,
              param_value = -180\<rparr>,
             \<lparr>param_type = VAProcFilterColorBalance, attrib = VAProcColorBalanceSaturation,
              param_value = 3 / 2\<rparr>]))"
proof -
  have h: "fst (ce_vaQueryVideoProcFilterCaps sample_config_env) = VA_STATUS_SUCCESS"
    "filter_buffer bright_system = VA_INVALID_ID"
    by (simp_all add: sample_defs bright_system_def)
  have v: "va_context bright_system = 2" "bright bright_system = 150"
    "contrast bright_system = 1" "hue bright_system = -200" "saturation bright_system = 3 / 2"
    by (simp_all add: sample_defs bright_system_def)
  have q: "queried_caps sample_config_env bright_system =
             sample_caps @ replicate 4 zero_cap"
    by (simp add: queried_caps_def vaQueryVideoProcFilterCaps_def VAProcColorBalanceCount_def
        sample_config_env_def sample_caps_def numeral_eq_Suc)
  from h C1_encoded_values [OF h] show ?thesis
    by (simp add: v q spec_encoded_def cap_range_def sample_caps_def)
qed

subsection \<open>Negotiation of the output pool\<close>

lemma build_filter_params_keeps:
  assumes "procamp_vaapi_build_filter_params e s = Some (r, s')"
  shows "output_frames_ref s' = output_frames_ref s \<and> output_format s' = output_format s \<and>
         output_width s' = output_width s \<and> output_height s' = output_height s"
  using build_filter_params_frame [OF assms] by simp

lemma build_filter_params_ok:
  assumes "filter_buffer s = VA_INVALID_ID"
    and "fst (ce_vaQueryVideoProcFilterCaps e) = VA_STATUS_SUCCESS"
    and "fst (ce_vaCreateBuffer e) = VA_STATUS_SUCCESS"
  shows "\<exists>s'. procamp_vaapi_build_filter_params e s = Some (0, s')"
  using assms
  by (simp add: procamp_vaapi_build_filter_params_def driver_defs Let_def)

text \<open>What a successful return of each part says about the pool and the output link.\<close>

lemma config_output_context_success:
  assumes "config_output_context e vf s = Some (r, s')" and "0 \<le> r"
  shows "output_frames_ref s' = output_frames_ref s \<and>
         outlink_hw_frames_ctx s' = output_frames_ref s \<and>
         outlink_w s' = output_width s \<and> outlink_h s' = output_height s \<and>
         output_format s' = output_format s \<and> r = 0"
proof -
  let ?s2 = "(snd (snd (vaCreateContext (ce_vaCreateContext e) (va_config s)
                (output_width s) (output_height s)
                (surface_ids vf) (nb_surfaces vf) (va_context s) s)))
             \<lparr>va_context := fst (snd (vaCreateContext (ce_vaCreateContext e) (va_config s)
                (output_width s) (output_height s)
                (surface_ids vf) (nb_surfaces vf) (va_context s) s))\<rparr>"
  have pre: "output_frames_ref ?s2 = output_frames_ref s" "output_format ?s2 = output_format s"
    "output_width ?s2 = output_width s" "output_height ?s2 = output_height s"
    by (simp_all add: vaCreateContext_def)
  from assms obtain err s3 where
    b: "procamp_vaapi_build_filter_params e ?s2 = Some (err, s3)"
    by (auto simp: config_output_context_def Let_def status_defs
        split: if_splits option.splits prod.splits)
  note k = build_filter_params_keeps [OF b]
  from assms b k pre show ?thesis
    by (auto simp: config_output_context_def Let_def status_defs config_output_fail_def
        split: if_splits prod.splits)
qed

lemma config_output_frames_success:
  assumes "config_output_frames e s = Some (r, s')" and "0 \<le> r"
  shows "\<exists>pool. output_frames_ref s' = Some pool \<and> outlink_hw_frames_ctx s' = Some pool \<and>
           hwfc_format pool = AV_PIX_FMT_VAAPI \<and>
           hwfc_sw_format pool = output_format s \<and>
           hwfc_width pool = output_width s \<and> hwfc_height pool = output_height s \<and>
           hwfc_initial_pool_size pool = 10 \<and>
           outlink_w s' = output_width s \<and> outlink_h s' = output_height s \<and>
           output_format s' = output_format s \<and> r = 0"
proof (cases "ce_hwframe_ctx_alloc e")
  case None
  with assms show ?thesis
    by (simp add: config_output_frames_def config_output_fail_def status_defs)
next
  case (Some fresh)
  show ?thesis
  proof (cases "fst (ce_hwframe_ctx_init e) < 0")
    case True
    with assms Some show ?thesis
      by (auto simp: config_output_frames_def config_output_fail_def Let_def)
  next
    case False
    with assms(1) Some obtain s1 where
      c: "config_output_context e (snd (ce_hwframe_ctx_init e)) s1 = Some (r, s')"
      and s1: "output_frames_ref s1 =
                 Some (fresh\<lparr>hwfc_format := AV_PIX_FMT_VAAPI,
                             hwfc_sw_format := output_format s,
                             hwfc_width := output_width s,
                             hwfc_height := output_height s,
                             hwfc_initial_pool_size := 10,
                             hwfc_hwctx := snd (ce_hwframe_ctx_init e)\<rparr>)"
        "output_width s1 = output_width s" "output_height s1 = output_height s"
        "output_format s1 = output_format s"
      by (simp add: config_output_frames_def Let_def)
    from config_output_context_success [OF c assms(2)] s1 show ?thesis by simp
  qed
qed

lemma config_output_format_success:
  assumes "config_output_format e inp c s = Some (r, s')" and "0 \<le> r"
  shows "\<exists>pool. output_frames_ref s' = Some pool \<and> outlink_hw_frames_ctx s' = Some pool \<and>
           hwfc_format pool = AV_PIX_FMT_VAAPI \<and>
           hwfc_sw_format pool =
             (if output_format s = AV_PIX_FMT_NONE then hwfc_sw_format inp else output_format s) \<and>
           hwfc_width pool = output_width s \<and> hwfc_height pool = output_height s \<and>
           hwfc_initial_pool_size pool = 10 \<and>
           outlink_w s' = output_width s \<and> outlink_h s' = output_height s \<and> r = 0"
proof -
  define s1 where "s1 = (if output_format s = AV_PIX_FMT_NONE
                then s\<lparr>output_format := hwfc_sw_format inp\<rparr> else s)"
  from assms have "config_output_frames e s1 = Some (r, s')"
    unfolding config_output_format_def s1_def [symmetric] Let_def
    by (auto simp: config_output_fail_def status_defs split: if_splits)
  from config_output_frames_success [OF this assms(2)] show ?thesis
    by (auto simp: s1_def)
qed

lemma output_format_listed_iff:
  "output_format_listed f fmts \<longleftrightarrow> f \<in> set (takeWhile (\<lambda>x. x \<noteq> AV_PIX_FMT_NONE) fmts)"
  by (induction fmts) auto

lemma config_output_context_ok:
  assumes "va_context s = VA_INVALID_ID" "filter_buffer s = VA_INVALID_ID"
    and "fst (ce_vaCreateContext e) = VA_STATUS_SUCCESS"
    and "fst (ce_vaQueryVideoProcFilterCaps e) = VA_STATUS_SUCCESS"
    and "fst (ce_vaCreateBuffer e) = VA_STATUS_SUCCESS" and "ce_outlink_ref e"
  shows "\<exists>s'. config_output_context e vf s = Some (0, s')"
proof -
  let ?s2 = "(snd (snd (vaCreateContext (ce_vaCreateContext e) (va_config s)
                (output_width s) (output_height s)
                (surface_ids vf) (nb_surfaces vf) (va_context s) s)))
             \<lparr>va_context := snd (ce_vaCreateContext e)\<rparr>"
  have "filter_buffer ?s2 = VA_INVALID_ID"
    using assms(2) by (simp add: vaCreateContext_def)
  from build_filter_params_ok [OF this assms(4,5)] obtain s3 where
    "procamp_vaapi_build_filter_params e ?s2 = Some (0, s3)" by blast
  with assms show ?thesis
    by (simp add: config_output_context_def vaCreateContext_def Let_def)
qed

lemma config_output_frames_ok:
  assumes "va_context s = VA_INVALID_ID" "filter_buffer s = VA_INVALID_ID"
    and "rest_succeeds e"
  shows "\<exists>s'. config_output_frames e s = Some (0, s')"
proof -
  from assms(3) obtain fresh where fresh: "ce_hwframe_ctx_alloc e = Some fresh"
    by (auto simp: rest_succeeds_def)
  let ?s1 = "s\<lparr>output_frames_ref :=
                 Some (fresh\<lparr>hwfc_format := AV_PIX_FMT_VAAPI,
                             hwfc_sw_format := output_format s,
                             hwfc_width := output_width s,
                             hwfc_height := output_height s,
                             hwfc_initial_pool_size := 10,
                             hwfc_hwctx := snd (ce_hwframe_ctx_init e)\<rparr>)\<rparr>"
  have "\<exists>s'. config_output_context e (snd (ce_hwframe_ctx_init e)) ?s1 = Some (0, s')"
    using assms by (intro config_output_context_ok) (simp_all add: rest_succeeds_def)
  with fresh assms(3) show ?thesis
    by (simp add: config_output_frames_def Let_def rest_succeeds_def)
qed

lemma config_output_context_format:
  assumes "config_output_context e vf s = Some (r, s')"
  shows "output_format s' = output_format s"
proof -
  let ?s2 = "(snd (snd (vaCreateContext (ce_vaCreateContext e) (va_config s)
                (output_width s) (output_height s)
                (surface_ids vf) (nb_surfaces vf) (va_context s) s)))
             \<lparr>va_context := fst (snd (vaCreateContext (ce_vaCreateContext e) (va_config s)
                (output_width s) (output_height s)
                (surface_ids vf) (nb_surfaces vf) (va_context s) s))\<rparr>"
  have pre: "output_format ?s2 = output_format s"
    by (simp add: vaCreateContext_def)
  show ?thesis
  proof (cases "fst (ce_vaCreateContext e) = VA_STATUS_SUCCESS")
    case False
    with assms show ?thesis
      by (auto simp: config_output_context_def vaCreateContext_def Let_def split: if_splits)
  next
    case True
    with assms obtain err s3 where
      b: "procamp_vaapi_build_filter_params e ?s2 = Some (err, s3)"
      by (auto simp: config_output_context_def vaCreateContext_def Let_def
          split: if_splits option.splits)
    from assms True b build_filter_params_keeps [OF b] pre show ?thesis
      by (auto simp: config_output_context_def vaCreateContext_def Let_def
          config_output_fail_def split: if_splits)
  qed
qed

lemma config_output_frames_format:
  assumes "config_output_frames e s = Some (r, s')"
  shows "output_format s' = output_format s"
proof (cases "ce_hwframe_ctx_alloc e")
  case None
  with assms show ?thesis
    by (auto simp: config_output_frames_def config_output_fail_def)
next
  case (Some fresh)
  show ?thesis
  proof (cases "fst (ce_hwframe_ctx_init e) < 0")
    case True
    with assms Some show ?thesis
      by (auto simp: config_output_frames_def config_output_fail_def Let_def)
  next
    case False
    with assms Some obtain s1 where
      c: "config_output_context e (snd (ce_hwframe_ctx_init e)) s1 = Some (r, s')"
      and s1: "output_format s1 = output_format s"
      by (simp add: config_output_frames_def Let_def)
    from config_output_context_format [OF c] s1 show ?thesis by simp
  qed
qed

lemma config_output_format_format:
  assumes "config_output_format e inp c s = Some (r, s')"
  shows "output_format s' = negotiated_format inp s"
proof -
  define s1 where "s1 = (if output_format s = AV_PIX_FMT_NONE
                then s\<lparr>output_format := hwfc_sw_format inp\<rparr> else s)"
  have f: "output_format s1 = negotiated_format inp s"
    by (simp add: s1_def negotiated_format_def)
  from assms have "config_output_frames e s1 = Some (r, s') \<or>
      (r, s') = config_output_fail (AVERROR EINVAL) True True s1"
    unfolding config_output_format_def s1_def [symmetric] Let_def
    by (auto split: if_splits)
  then show ?thesis
    using config_output_frames_format [of e s1 r s'] f
    by (auto simp: config_output_fail_def)
qed

lemma config_output_reaches_format:
  assumes "input_frames_ref s = Some inp" and "ce_device_ref e"
    and "fst (ce_vaCreateConfig e) = VA_STATUS_SUCCESS" and "ce_hwconfig_alloc e"
    and "ce_constraints e = Some c"
  shows "\<exists>s6. procamp_vaapi_config_output e s = config_output_format e inp c s6 \<and>
          va_context s6 = VA_INVALID_ID \<and> filter_buffer s6 = VA_INVALID_ID \<and>
          output_format s6 = output_format s \<and>
          output_width s6 = hwfc_width inp \<and> output_height s6 = hwfc_height inp"
  using assms uninit_ids [of s] uninit_keeps [of s]
  unfolding procamp_vaapi_config_output_def Let_def
  apply (simp add: vaCreateConfig_def)
  apply (rule exI, rule conjI, rule refl)
  apply simp
  done

text \<open>
  Against claim C7 as stated: the context has negotiated once, on an NV12 stream, and
  no output format was ever requested (the filter has no option for it). The stream
  changes to P010 and the input and the output are configured again. The negotiation
  succeeds, and the pool is NV12, not the native format of the input: the format
  chosen the first time has stayed in \<open>output_format\<close>.
\<close>

theorem C7_later_negotiation_counterexample:
  "hwfc_sw_format p010_input_frames = AV_PIX_FMT_P010 \<and>
   procamp_vaapi_config_input True (Some p010_input_frames) ready_system \<noteq> None \<and>
   procamp_vaapi_config_output sample_config_env
     (snd (the (procamp_vaapi_config_input True (Some p010_input_frames) ready_system))) \<noteq> None \<and>
   fst (the (procamp_vaapi_config_output sample_config_env
     (snd (the (procamp_vaapi_config_input True (Some p010_input_frames) ready_system))))) = 0 \<and>
   map_option hwfc_sw_format (output_frames_ref (snd (the (procamp_vaapi_config_output sample_config_env
     (snd (the (procamp_vaapi_config_input True (Some p010_input_frames) ready_system)))))))
     = Some AV_PIX_FMT_NV12"
  by (simp add: procamp_vaapi_config_input_def config_defs driver_defs status_defs sample_defs
      p010_input_frames_def)

text \<open>
  Claim C7, amended. Let the negotiation have obtained the configuration and the
  constraints. The format it works with is the input's native software format when the
  context holds no output format (as after initialisation), and otherwise the format
  the context holds, which may be the one an earlier negotiation chose. If the device
  reports no list of valid formats, or that format is in the list, and the remaining
  collaborators succeed, the negotiation returns 0: the output pool has that format,
  the width and height of the input and an initial pool size of 10, the output link
  carries the pool and the dimensions, and the format is kept in the context. If the
  device reports a list without that format, the default included, the negotiation
  returns \<open>AVERROR(EINVAL)\<close> and leaves no pool. And whenever the negotiation returns
  without error, the pool and the link are as described.
\<close>

theorem C7_negotiated_pool:
  assumes "input_frames_ref s = Some inp" and "ce_device_ref e"
    and "fst (ce_vaCreateConfig e) = VA_STATUS_SUCCESS" and "ce_hwconfig_alloc e"
    and "ce_constraints e = Some c"
  shows
    "((valid_sw_formats c = None \<or>
       (\<exists>fmts. valid_sw_formats c = Some fmts \<and>
          negotiated_format inp s \<in> set (takeWhile (\<lambda>x. x \<noteq> AV_PIX_FMT_NONE) fmts))) \<and>
      rest_succeeds e \<longrightarrow>
        (\<exists>s' pool. procamp_vaapi_config_output e s = Some (0, s') \<and>
           output_frames_ref s' = Some pool \<and> outlink_hw_frames_ctx s' = Some pool \<and>
           hwfc_sw_format pool = negotiated_format inp s \<and>
           hwfc_width pool = hwfc_width inp \<and> hwfc_height pool = hwfc_height inp \<and>
           hwfc_initial_pool_size pool = 10 \<and>
           outlink_w s' = hwfc_width inp \<and> outlink_h s' = hwfc_height inp \<and>
           output_format s' = negotiated_format inp s)) \<and>
     (\<forall>fmts. valid_sw_formats c = Some fmts \<and>
        negotiated_format inp s \<notin> set (takeWhile (\<lambda>x. x \<noteq> AV_PIX_FMT_NONE) fmts) \<longrightarrow>
        (\<exists>s'. procamp_vaapi_config_output e s = Some (AVERROR EINVAL, s') \<and>
              output_frames_ref s' = None)) \<and>
     (\<forall>r s'. procamp_vaapi_config_output e s = Some (r, s') \<and> 0 \<le> r \<longrightarrow>
        (\<exists>pool. output_frames_ref s' = Some pool \<and> outlink_hw_frames_ctx s' = Some pool \<and>
           hwfc_sw_format pool = negotiated_format inp s \<and>
           hwfc_width pool = hwfc_width inp \<and> hwfc_height pool = hwfc_height inp \<and>
           hwfc_initial_pool_size pool = 10 \<and>
           outlink_w s' = hwfc_width inp \<and> outlink_h s' = hwfc_height inp \<and>
           output_format s' = negotiated_format inp s))"
proof -
  from config_output_reaches_format [OF assms] obtain s6 where
    s6: "procamp_vaapi_config_output e s = config_output_format e inp c s6"
      "va_context s6 = VA_INVALID_ID" "filter_buffer s6 = VA_INVALID_ID"
      "output_format s6 = output_format s"
      "output_width s6 = hwfc_width inp" "output_height s6 = hwfc_height inp"
    by blast
  have nf: "negotiated_format inp s6 = negotiated_format inp s"
    using s6(4) by (simp add: negotiated_format_def)
  define s7 where "s7 = (if output_format s6 = AV_PIX_FMT_NONE
                then s6\<lparr>output_format := hwfc_sw_format inp\<rparr> else s6)"
  have s7: "output_format s7 = negotiated_format inp s" "va_context s7 = VA_INVALID_ID"
    "filter_buffer s7 = VA_INVALID_ID"
    using s6(2-4) by (simp_all add: s7_def negotiated_format_def)
  have succ: "\<exists>pool. output_frames_ref s' = Some pool \<and> outlink_hw_frames_ctx s' = Some pool \<and>
           hwfc_sw_format pool = negotiated_format inp s \<and>
           hwfc_width pool = hwfc_width inp \<and> hwfc_height pool = hwfc_height inp \<and>
           hwfc_initial_pool_size pool = 10 \<and>
           outlink_w s' = hwfc_width inp \<and> outlink_h s' = hwfc_height inp \<and>
           output_format s' = negotiated_format inp s"
    if run: "procamp_vaapi_config_output e s = Some (r, s')" and r: "0 \<le> r" for r s'
  proof -
    from run s6(1) have f: "config_output_format e inp c s6 = Some (r, s')" by simp
    from config_output_format_success [OF f r] config_output_format_format [OF f] nf s6(4-6)
    show ?thesis by (auto simp: negotiated_format_def)
  qed
  have accepted: "\<exists>s' pool. procamp_vaapi_config_output e s = Some (0, s') \<and>
           output_frames_ref s' = Some pool \<and> outlink_hw_frames_ctx s' = Some pool \<and>
           hwfc_sw_format pool = negotiated_format inp s \<and>
           hwfc_width pool = hwfc_width inp \<and> hwfc_height pool = hwfc_height inp \<and>
           hwfc_initial_pool_size pool = 10 \<and>
           outlink_w s' = hwfc_width inp \<and> outlink_h s' = hwfc_height inp \<and>
           output_format s' = negotiated_format inp s"
    if ok: "valid_sw_formats c = None \<or>
       (\<exists>fmts. valid_sw_formats c = Some fmts \<and>
          negotiated_format inp s \<in> set (takeWhile (\<lambda>x. x \<noteq> AV_PIX_FMT_NONE) fmts))"
      and rest: "rest_succeeds e"
  proof -
    from config_output_frames_ok [OF s7(2,3) rest] obtain s' where
      fr: "config_output_frames e s7 = Some (0, s')" by blast
    have "config_output_format e inp c s6 = Some (0, s')"
      using ok fr s7(1)
      unfolding config_output_format_def s7_def [symmetric] Let_def
      by (auto simp: output_format_listed_iff)
    with s6(1) have run: "procamp_vaapi_config_output e s = Some (0, s')" by simp
    from succ [OF run] run show ?thesis by auto
  qed
  have rejected: "\<exists>s'. procamp_vaapi_config_output e s = Some (AVERROR EINVAL, s') \<and>
              output_frames_ref s' = None"
    if "valid_sw_formats c = Some fmts"
      "negotiated_format inp s \<notin> set (takeWhile (\<lambda>x. x \<noteq> AV_PIX_FMT_NONE) fmts)" for fmts
    using that s6(1) s7(1)
    unfolding config_output_format_def s7_def [symmetric] Let_def
    by (simp add: config_output_fail_def output_format_listed_iff)
  from accepted rejected succ show ?thesis by blast
qed

text \<open>
  On the sample device: the first negotiation of the 1920 by 1080 NV12 stream gives an
  NV12 pool of that size with 10 surfaces; a first negotiation of the P010 stream is
  refused, P010 not being in the device's list.
\<close>

theorem C7_negotiated_pool_witness:
  "(\<exists>s' pool. procamp_vaapi_config_output sample_config_env configured_system = Some (0, s') \<and>
      output_frames_ref s' = Some pool \<and> outlink_hw_frames_ctx s' = Some pool \<and>
      hwfc_sw_format pool = AV_PIX_FMT_NV12 \<and>
      hwfc_width pool = 1920 \<and> hwfc_height pool = 1080 \<and>
      hwfc_initial_pool_size pool = 10 \<and>
      outlink_w s' = 1920 \<and> outlink_h s' = 1080 \<and> output_format s' = AV_PIX_FMT_NV12) \<and>
   (\<exists>s'. procamp_vaapi_config_output sample_config_env
            (configured_system\<lparr>input_frames_ref := Some p010_input_frames\<rparr>) =
          Some (AVERROR EINVAL, s') \<and> output_frames_ref s' = None)"
proof -
  let ?c = "\<lparr>valid_sw_formats = Some [AV_PIX_FMT_NV12, AV_PIX_FMT_YUV420P, AV_PIX_FMT_NONE]\<rparr>"
  let ?p = "configured_system\<lparr>input_frames_ref := Some p010_input_frames\<rparr>"
  have e: "ce_device_ref sample_config_env"
    "fst (ce_vaCreateConfig sample_config_env) = VA_STATUS_SUCCESS"
    "ce_hwconfig_alloc sample_config_env" "ce_constraints sample_config_env = Some ?c"
    and r: "rest_succeeds sample_config_env"
    by (simp_all add: sample_config_env_def rest_succeeds_def)
  have n: "input_frames_ref configured_system = Some sample_input_frames"
    "negotiated_format sample_input_frames configured_system = AV_PIX_FMT_NV12"
    "hwfc_width sample_input_frames = 1920" "hwfc_height sample_input_frames = 1080"
    by (simp_all add: negotiated_format_def configured_system_def procamp_vaapi_init_def
        sample_input_frames_def)
  have p: "input_frames_ref ?p = Some p010_input_frames"
    "negotiated_format p010_input_frames ?p = AV_PIX_FMT_P010"
    by (simp_all add: negotiated_format_def configured_system_def procamp_vaapi_init_def
        p010_input_frames_def)
  from C7_negotiated_pool [OF n(1) e] C7_negotiated_pool [OF p(1) e] r n(2-4) p(2)
  show ?thesis by simp
qed




text \<open>
  Claim C4, at the failing input: the driver refuses the execution context. The
  function returns \<open>AVERROR(EIO)\<close> from line 293 without passing the label \<open>fail\<close>: the
  \<open>AVVAAPIHWConfig\<close> and the constraints it allocated are still allocated, and the
  output frames context is still referenced.
\<close>

theorem C4_context_failure_skips_cleanup:
  "procamp_vaapi_config_output (sample_config_env\<lparr>ce_vaCreateContext := (1, 0)\<rparr>)
       configured_system =
     Some (AVERROR EIO, configured_system
       \<lparr>hwctx := Some \<lparr>driver_quirks = 0\<rparr>, device_ref := Some sample_device,
        va_config := 1,
        output_frames_ref := Some sample_pool,
        output_format := AV_PIX_FMT_NV12, output_width := 1920, output_height := 1080,
        va_calls := [VaCreateConfig,
                     VaCreateContext 1 1920 1080 [10, 11, 12, 13, 14, 15, 16, 17, 18, 19] 10],
        live_configs := [1],
        live_hwconfigs := 1, live_constraints := 1\<rparr>)"
  by (simp add: config_defs driver_defs status_defs sample_defs)

text \<open>
  For comparison, the next failure point (the driver refuses the parameter buffer) does
  pass the label: both objects are freed and the frames context is released.
\<close>

lemma parameter_buffer_failure_cleans_up:
  "procamp_vaapi_config_output (sample_config_env\<lparr>ce_vaCreateBuffer := (1, 0)\<rparr>)
       configured_system =
     Some (AVERROR EIO, configured_system
       \<lparr>hwctx := Some \<lparr>driver_quirks = 0\<rparr>, device_ref := Some sample_device,
        va_config := 1, va_context := 2,
        output_frames_ref := None,
        output_format := AV_PIX_FMT_NV12, output_width := 1920, output_height := 1080,
        va_calls := sample_build_calls,
        live_configs := [1], live_contexts := [2],
        live_hwconfigs := 0, live_constraints := 0\<rparr>)"
  by (simp add: config_defs driver_defs status_defs sample_defs)

subsection \<open>Per-frame submission\<close>

text \<open>
  Claim C6. A submission made while the execution context is not built
  (\<open>va_context\<close> is \<open>VA_INVALID_ID\<close>) returns \<open>AVERROR(EINVAL)\<close> and leaves the whole
  state as it was: no driver call, no frame allocated, nothing handed downstream, the
  input frame not released.
\<close>

theorem C6_not_ready_rejected:
  "va_context s = VA_INVALID_ID \<Longrightarrow>
     procamp_vaapi_filter_frame CONFIG_VAAPI_1 e input_frame s = Some (AVERROR EINVAL, s)"
  by (simp add: procamp_vaapi_filter_frame_def)

theorem C6_not_ready_rejected_witness:
  "va_context (snd (procamp_vaapi_init priv_defaults)) = VA_INVALID_ID \<and>
   procamp_vaapi_filter_frame False sample_frame_env sample_frame
       (snd (procamp_vaapi_init priv_defaults)) =
     Some (AVERROR EINVAL, snd (procamp_vaapi_init priv_defaults))"
proof -
  have h: "va_context (snd (procamp_vaapi_init priv_defaults)) = VA_INVALID_ID"
    by (simp add: procamp_vaapi_init_def)
  from h C6_not_ready_rejected [OF h] show ?thesis by simp
qed

text \<open>
  Claim C2, at the failing input: the pool gives no surface, \<open>av_hwframe_get_buffer\<close>
  returns \<open>AVERROR(ENOMEM)\<close> and leaves the frame blank. The submission goes on: it
  begins a picture on surface 0, creates and renders the transient buffer, ends the
  picture, and hands the frame without a surface downstream, returning 0.
\<close>

theorem C2_pool_exhaustion_not_aborted:
  "fst (fe_av_hwframe_get_buffer
          (sample_frame_env\<lparr>fe_av_hwframe_get_buffer := (AVERROR ENOMEM, blank_frame)\<rparr>)) < 0 \<and>
   procamp_vaapi_filter_frame False
       (sample_frame_env\<lparr>fe_av_hwframe_get_buffer := (AVERROR ENOMEM, blank_frame)\<rparr>)
       sample_frame ready_system =
     Some (0, ready_system
       \<lparr>va_calls := va_calls ready_system @
          [VaBeginPicture 2 0,
           VaCreateBuffer 2 (PipelineParameters sample_pipeline_params),
           VaRenderPicture 2 [4],
           VaEndPicture 2],
        live_buffers := [3, 4],
        released_inputs := [sample_frame],
        downstream := [blank_frame\<lparr>frame_pts := 40, frame_side_data := [7]\<rparr>]\<rparr>)"
  by (simp add: eval_defs)

text \<open>
  Claim C3. A submission that returns without error has handed exactly one frame to the
  output link, carrying the timestamp and the side data of the input frame, and has
  released the input frame.
\<close>

theorem C3_one_output_per_input:
  assumes "procamp_vaapi_filter_frame cfg e input_frame s = Some (r, s')" and "0 \<le> r"
  shows "\<exists>out. downstream s' = downstream s @ [out] \<and>
           frame_pts out = frame_pts input_frame \<and>
           frame_side_data out = frame_side_data input_frame \<and>
           released_inputs s' = released_inputs s @ [input_frame]"
  using assms
  by (auto simp: frame_defs driver_defs status_defs split: if_splits option.splits)

theorem C3_one_output_per_input_witness:
  "procamp_vaapi_filter_frame False sample_frame_env sample_frame ready_system \<noteq> None \<and>
   (\<exists>out. downstream (snd (the (procamp_vaapi_filter_frame False sample_frame_env sample_frame ready_system)))
        = downstream ready_system @ [out] \<and>
      frame_pts out = 40 \<and> frame_side_data out = [7] \<and>
      released_inputs (snd (the (procamp_vaapi_filter_frame False sample_frame_env sample_frame ready_system)))
        = released_inputs ready_system @ [sample_frame])"
proof -
  obtain r s' where
    run: "procamp_vaapi_filter_frame False sample_frame_env sample_frame ready_system = Some (r, s')"
    and r: "r = 0"
    by (simp add: frame_defs driver_defs status_defs sample_defs)
  from C3_one_output_per_input [OF run] r run show ?thesis
    by (simp add: sample_frame_def)
qed

text \<open>
  Against claim C9 as stated: the driver fails the end of the picture (step 6). The
  cleanup is a second \<open>vaEndPicture\<close> alone; no render call follows the failure, and
  the one render call of the submission passes one buffer, not none.
\<close>

theorem C9_end_failure_counterexample:
  "procamp_vaapi_filter_frame False (sample_frame_env\<lparr>fe_vaEndPicture := 1\<rparr>)
       sample_frame ready_system =
     Some (AVERROR EIO, ready_system
       \<lparr>va_calls := va_calls ready_system @
          [VaBeginPicture 2 10,
           VaCreateBuffer 2 (PipelineParameters sample_pipeline_params),
           VaRenderPicture 2 [4],
           VaEndPicture 2,
           VaEndPicture 2],
        live_buffers := [3, 4]\<rparr>)"
  by (simp add: eval_defs)

text \<open>
  Claim C9, amended. After a successful begin: when the creation of the transient
  buffer or the render call fails, the cleanup is a render call passing the one id in
  \<open>params_id\<close> followed by an end call; when the end call fails, the cleanup is a second
  end call alone. In each case the submission returns \<open>AVERROR(EIO)\<close> whatever the
  cleanup calls report, frees the output frame and hands nothing downstream.
\<close>

theorem C9_cleanup_after_begin:
  assumes "va_context s \<noteq> VA_INVALID_ID" and "hwctx s = Some hw" and "fe_av_frame_alloc e"
    and "fe_vaBeginPicture e = VA_STATUS_SUCCESS"
  shows
    "(fst (fe_vaCreateBuffer e) \<noteq> VA_STATUS_SUCCESS \<longrightarrow>
        (\<exists>s' p. procamp_vaapi_filter_frame cfg e input_frame s = Some (AVERROR EIO, s') \<and>
           va_calls s' = va_calls s @
             [VaBeginPicture (va_context s) (frame_data3 (snd (fe_av_hwframe_get_buffer e))),
              VaCreateBuffer (va_context s) p,
              VaRenderPicture (va_context s) [fe_params_id e],
              VaEndPicture (va_context s)] \<and>
           live_frames s' = live_frames s \<and> downstream s' = downstream s)) \<and>
     (fst (fe_vaCreateBuffer e) = VA_STATUS_SUCCESS \<and>
      fe_vaRenderPicture e \<noteq> VA_STATUS_SUCCESS \<longrightarrow>
        (\<exists>s' p. procamp_vaapi_filter_frame cfg e input_frame s = Some (AVERROR EIO, s') \<and>
           va_calls s' = va_calls s @
             [VaBeginPicture (va_context s) (frame_data3 (snd (fe_av_hwframe_get_buffer e))),
              VaCreateBuffer (va_context s) p,
              VaRenderPicture (va_context s) [snd (fe_vaCreateBuffer e)],
              VaRenderPicture (va_context s) [snd (fe_vaCreateBuffer e)],
              VaEndPicture (va_context s)] \<and>
           live_frames s' = live_frames s \<and> downstream s' = downstream s)) \<and>
     (fst (fe_vaCreateBuffer e) = VA_STATUS_SUCCESS \<and>
      fe_vaRenderPicture e = VA_STATUS_SUCCESS \<and>
      fe_vaEndPicture e \<noteq> VA_STATUS_SUCCESS \<longrightarrow>
        (\<exists>s' p. procamp_vaapi_filter_frame cfg e input_frame s = Some (AVERROR EIO, s') \<and>
           va_calls s' = va_calls s @
             [VaBeginPicture (va_context s) (frame_data3 (snd (fe_av_hwframe_get_buffer e))),
              VaCreateBuffer (va_context s) p,
              VaRenderPicture (va_context s) [snd (fe_vaCreateBuffer e)],
              VaEndPicture (va_context s),
              VaEndPicture (va_context s)] \<and>
           live_frames s' = live_frames s \<and> downstream s' = downstream s))"
  using assms
  by (simp add: frame_defs driver_defs)

theorem C9_cleanup_after_begin_witness:
  "\<exists>s' p. procamp_vaapi_filter_frame False
            (sample_frame_env\<lparr>fe_vaCreateBuffer := (1, 77), fe_params_id := 9,
               fe_cleanup_vaRenderPicture := 1, fe_cleanup_vaEndPicture := 1\<rparr>)
            sample_frame ready_system = Some (AVERROR EIO, s') \<and>
      va_calls s' = va_calls ready_system @
        [VaBeginPicture 2 10, VaCreateBuffer 2 p, VaRenderPicture 2 [9], VaEndPicture 2] \<and>
      live_frames s' = live_frames ready_system \<and> downstream s' = downstream ready_system"
proof -
  let ?e = "sample_frame_env\<lparr>fe_vaCreateBuffer := (1, 77), fe_params_id := 9,
               fe_cleanup_vaRenderPicture := 1, fe_cleanup_vaEndPicture := 1\<rparr>"
  have h: "va_context ready_system \<noteq> VA_INVALID_ID"
    "hwctx ready_system = Some \<lparr>driver_quirks = 0\<rparr>"
    "fe_av_frame_alloc ?e" "fe_vaBeginPicture ?e = VA_STATUS_SUCCESS"
    by (simp_all add: sample_defs status_defs)
  have v: "va_context ready_system = 2" "fst (fe_vaCreateBuffer ?e) \<noteq> VA_STATUS_SUCCESS"
    "fe_params_id ?e = 9" "frame_data3 (snd (fe_av_hwframe_get_buffer ?e)) = 10"
    by (simp_all add: sample_defs status_defs)
  from C9_cleanup_after_begin [OF h, of False sample_frame] v show ?thesis
    by simp
qed

text \<open>
  Against claim C10 as stated: every step succeeds and the output link answers
  \<open>AVERROR(ENOMEM)\<close>. The submission returns that error, yet the input frame has been
  released and the output frame has been handed to the link.
\<close>

theorem C10_link_error_counterexample:
  "AVERROR ENOMEM < 0 \<and>
   procamp_vaapi_filter_frame False (sample_frame_env\<lparr>fe_ff_filter_frame := AVERROR ENOMEM\<rparr>)
       sample_frame ready_system =
     Some (AVERROR ENOMEM, ready_system
       \<lparr>va_calls := va_calls ready_system @
          [VaBeginPicture 2 10,
           VaCreateBuffer 2 (PipelineParameters sample_pipeline_params),
           VaRenderPicture 2 [4],
           VaEndPicture 2],
        live_buffers := [3, 4],
        released_inputs := [sample_frame],
        downstream := [blank_frame\<lparr>frame_format := AV_PIX_FMT_VAAPI,
                                     frame_width := 1920, frame_height := 1080,
                                     frame_data3 := 10,
                                     frame_pts := 40, frame_side_data := [7]\<rparr>]\<rparr>)"
  by (simp add: eval_defs)

text \<open>
  Claim C10, amended. A submission that does not reach the hand-over to the output link
  (the context is not built, or the frame allocation, a driver call or the copy of the
  metadata fails) returns an error, frees the output frame it allocated, hands nothing
  downstream and does not release the input frame. A submission that reaches the
  hand-over has released the input frame and passed the output frame to the link, and
  returns what the link returns, an error included.
\<close>

theorem C10_ownership_on_return:
  assumes "procamp_vaapi_filter_frame cfg e input_frame s = Some (r, s')"
  shows "(\<not> reaches_link e s \<longrightarrow>
            r < 0 \<and> live_frames s' = live_frames s \<and> downstream s' = downstream s \<and>
            released_inputs s' = released_inputs s) \<and>
         (reaches_link e s \<longrightarrow>
            r = fe_ff_filter_frame e \<and> released_inputs s' = released_inputs s @ [input_frame] \<and>
            (\<exists>out. downstream s' = downstream s @ [out]) \<and> live_frames s' = live_frames s)"
  using assms
  by (auto simp: frame_defs driver_defs status_defs reaches_link_def
      split: if_splits option.splits)

theorem C10_ownership_on_return_witness:
  "procamp_vaapi_filter_frame False (sample_frame_env\<lparr>fe_av_frame_copy_props := AVERROR ENOMEM\<rparr>)
       sample_frame ready_system \<noteq> None \<and>
   fst (the (procamp_vaapi_filter_frame False
               (sample_frame_env\<lparr>fe_av_frame_copy_props := AVERROR ENOMEM\<rparr>)
               sample_frame ready_system)) < 0 \<and>
   live_frames (snd (the (procamp_vaapi_filter_frame False
               (sample_frame_env\<lparr>fe_av_frame_copy_props := AVERROR ENOMEM\<rparr>)
               sample_frame ready_system))) = live_frames ready_system \<and>
   downstream (snd (the (procamp_vaapi_filter_frame False
               (sample_frame_env\<lparr>fe_av_frame_copy_props := AVERROR ENOMEM\<rparr>)
               sample_frame ready_system))) = downstream ready_system \<and>
   released_inputs (snd (the (procamp_vaapi_filter_frame False
               (sample_frame_env\<lparr>fe_av_frame_copy_props := AVERROR ENOMEM\<rparr>)
               sample_frame ready_system))) = released_inputs ready_system"
proof -
  let ?e = "sample_frame_env\<lparr>fe_av_frame_copy_props := AVERROR ENOMEM\<rparr>"
  obtain r s' where
    run: "procamp_vaapi_filter_frame False ?e sample_frame ready_system = Some (r, s')"
    by (simp add: eval_defs)
  have n: "\<not> reaches_link ?e ready_system"
    by (simp add: reaches_link_def sample_defs status_defs)
  from C10_ownership_on_return [OF run] n run show ?thesis by simp
qed

end
